theory Spec2Isabelle
  imports Main "HOL-Library.AList"
begin

section \<open>JavaScript values\<close>

text \<open>
  The tool server is TypeScript. Arguments arrive from the agent host as JSON, sparse
  update payloads are plain objects built key by key, and the host-configuration file
  is JSON. A JSON value is modelled by \<open>jvalue\<close>; an object is an association list,
  where assigning a property replaces the value of an existing key in place and
  appends a new key otherwise (\<open>AList.update\<close>), and reading a property is \<open>map_of\<close>
  (an absent key reads as \<open>None\<close>, JavaScript's \<open>undefined\<close>).
  Numbers are modelled by integers: positions, indices, seconds and points are integral
  in every claim; strings are byte lists.
\<close>

datatype jvalue =
    JNull
  | JBool bool
  | JNum int
  | JStr string
  | JArr "jvalue list"
  | JObj "(string \<times> jvalue) list"

type_synonym jobj = "(string \<times> jvalue) list"

definition set_prop :: "string \<Rightarrow> jvalue \<Rightarrow> jobj \<Rightarrow> jobj" where
  "set_prop k v obj = AList.update k v obj"

definition get_prop :: "jobj \<Rightarrow> string \<Rightarrow> jvalue option" where
  "get_prop obj k = map_of obj k"

text \<open>\<open>if (v !== undefined) obj.k = v\<close>, with \<open>conv\<close> the JSON form of the value.\<close>

definition assign_if_defined :: "string \<Rightarrow> ('a \<Rightarrow> jvalue) \<Rightarrow> 'a option \<Rightarrow> jobj \<Rightarrow> jobj" where
  "assign_if_defined k conv v obj = (case v of None \<Rightarrow> obj | Some x \<Rightarrow> set_prop k (conv x) obj)"

text \<open>A \<open>string | number\<close> value (the type of \<open>position\<close> in types.ts).\<close>

datatype str_or_num = IsStr string | IsNum int

fun str_or_num_json :: "str_or_num \<Rightarrow> jvalue" where
  "str_or_num_json (IsStr s) = JStr s"
| "str_or_num_json (IsNum n) = JNum n"

subsection \<open>Rendering in template literals\<close>

definition digit_char :: "nat \<Rightarrow> char" where
  "digit_char d = char_of (48 + d)"

fun show_nat :: "nat \<Rightarrow> string" where
  "show_nat n = (if n < 10 then [digit_char n] else show_nat (n div 10) @ [digit_char (n mod 10)])"

declare show_nat.simps [simp del]

definition show_int :: "int \<Rightarrow> string" where
  "show_int i = (if i < 0 then CHR ''-'' # show_nat (nat (- i)) else show_nat (nat i))"

definition show_bool :: "bool \<Rightarrow> string" where
  "show_bool b = (if b then ''true'' else ''false'')"

text \<open>
  Truthiness of an optional value, as tested by \<open>if (x)\<close>, \<open>x ? a : b\<close> and \<open>x || d\<close>:
  \<open>undefined\<close>, the empty string, \<open>0\<close> and \<open>false\<close> are falsy.
\<close>

definition truthy_str :: "string option \<Rightarrow> bool" where
  "truthy_str x = (case x of None \<Rightarrow> False | Some s \<Rightarrow> s \<noteq> [])"

definition truthy_bool :: "bool option \<Rightarrow> bool" where
  "truthy_bool x = (case x of None \<Rightarrow> False | Some b \<Rightarrow> b)"

text \<open>\<open>x || d\<close> on strings.\<close>

definition str_or :: "string option \<Rightarrow> string \<Rightarrow> string" where
  "str_or x d = (case x of None \<Rightarrow> d | Some s \<Rightarrow> if s = [] then d else s)"

text \<open>\<open>x || y\<close> on optional strings.\<close>

definition opt_or :: "string option \<Rightarrow> string option \<Rightarrow> string option" where
  "opt_or x y = (if truthy_str x then x else y)"

text \<open>\<open>s.substring(0, 100)\<close> followed by \<open>...\<close> when \<open>s.length > 100\<close>.\<close>

definition abbreviate :: "string \<Rightarrow> string" where
  "abbreviate s = take 100 s @ (if length s > 100 then ''...'' else [])"

text \<open>\<open>toUpperCase\<close> on the ASCII letters.\<close>

definition toUpperCase :: "string \<Rightarrow> string" where
  "toUpperCase s =
     map (\<lambda>c. if 97 \<le> (of_char c :: nat) \<and> (of_char c :: nat) \<le> 122
               then char_of ((of_char c :: nat) - 32) else c) s"

text \<open>\<open>xs.join(sep)\<close>.\<close>

fun join :: "string \<Rightarrow> string list \<Rightarrow> string" where
  "join sep [] = []"
| "join sep [x] = x"
| "join sep (x # y # ys) = x @ sep @ join sep (y # ys)"

text \<open>The status glyphs of the narratives, as their UTF-8 bytes.\<close>

definition glyph_done :: string where
  "glyph_done = [char_of (0xE2::nat), char_of (0x9C::nat), char_of (0x85::nat)]"

definition glyph_open :: string where
  "glyph_open = [char_of (0xE2::nat), char_of (0xAC::nat), char_of (0x9C::nat)]"

definition glyph_folder :: string where
  "glyph_folder = [char_of (0xF0::nat), char_of (0x9F::nat), char_of (0x93::nat), char_of (0x82::nat)]"

definition glyph_warning :: string where
  "glyph_warning = [char_of (0xE2::nat), char_of (0x9A::nat), char_of (0xA0::nat),
                    char_of (0xEF::nat), char_of (0xB8::nat), char_of (0x8F::nat)]"

definition glyph_arrow :: string where
  "glyph_arrow = [char_of (0xE2::nat), char_of (0x86::nat), char_of (0x90::nat)]"

definition glyph_pin :: string where
  "glyph_pin = [char_of (0xF0::nat), char_of (0x9F::nat), char_of (0x93::nat), char_of (0x8C::nat)]"

definition glyph_label :: string where
  "glyph_label = [char_of (0xF0::nat), char_of (0x9F::nat), char_of (0x8F::nat), char_of (0xB7::nat),
                  char_of (0xEF::nat), char_of (0xB8::nat), char_of (0x8F::nat)]"

section \<open>The data model (types.ts)\<close>

text \<open>
  Every interface of types.ts that the tools use is a record; an optional field
  (\<open>f?: T\<close>) is an \<open>option\<close>. Field names carry a prefix for their record. The
  elements of the \<open>any[]\<close> collections of a task (subtasks, labels, dates, relations,
  custom fields) are records of the fields that the narratives read.
\<close>

record Column =
  col_name :: string
  col_uniqueId :: string

record Swimlane =
  sl_name :: string
  sl_uniqueId :: string

record ColorConfig =
  cc_name :: string
  cc_value :: string
  cc_description :: "string option"

record Board =
  board_id :: string
  board_name :: string
  board_columns :: "Column list"
  board_swimlanes :: "Swimlane list option"
  board_colors :: "ColorConfig list option"

record CreateTaskRequest =
  ctr_name :: string
  ctr_columnId :: string
  ctr_swimlaneId :: "string option"
  ctr_position :: "str_or_num option"
  ctr_color :: "string option"
  ctr_description :: "string option"
  ctr_totalSecondsEstimate :: "int option"
  ctr_pointsEstimate :: "int option"

record CreateTaskResponse =
  cres_taskId :: string

record AddSubtaskRequest =
  asr_name :: string
  asr_finished :: "bool option"
  asr_userId :: "string option"
  asr_dueDateTimestamp :: "string option"
  asr_dueDateTimestampLocal :: "string option"

record AddSubtaskResponse =
  ares_insertIndex :: int

record AddLabelRequest =
  alr_name :: string
  alr_pinned :: "bool option"

record AddLabelResponse =
  lres_insertIndex :: int

record SetTaskDueDateRequest =
  sdr_dueTimestamp :: string
  sdr_targetColumnId :: string
  sdr_dueTimestampLocal :: "string option"
  sdr_dateType :: "string option"
  sdr_status :: "string option"

record CustomFieldValue =
  cfv_text :: "string option"
  cfv_number :: "int option"

record UpdateCustomFieldRequest =
  ucf_value :: CustomFieldValue

record AddCommentRequest =
  acr_text :: string
  acr_authorUserId :: "string option"
  acr_createdTimestamp :: "string option"

record AddCommentResponse =
  cmres_taskCommentId :: string

record AddSubtasksRequest =
  asq_subtasks :: "AddSubtaskRequest list"

record AddedSubtask =
  as_name :: string
  as_insertIndex :: int

record AddSubtasksResponse =
  asres_addedSubtasks :: "AddedSubtask list"
  asres_totalAdded :: int

record CreateTaskWithSubtasksRequest =
  cws_name :: string
  cws_columnId :: string
  cws_description :: "string option"
  cws_color :: "string option"
  cws_position :: "str_or_num option"
  cws_subtasks :: "AddSubtaskRequest list"

record CreateTaskWithSubtasksResponse =
  cwres_taskId :: string
  cwres_taskName :: string
  cwres_addedSubtasks :: "AddedSubtask list"
  cwres_totalSubtasks :: int

record KanbanError =
  message :: string
  err_status :: "int option"

record TaskNumber =
  tn_prefix :: "string option"
  tn_value :: int

record Subtask =
  sub_name :: "string option"
  sub_finished :: "bool option"
  sub_userId :: "string option"
  sub_dueDateTimestamp :: "string option"
  sub_dueDateTimestampLocal :: "string option"

record Label =
  lab_name :: string
  lab_pinned :: "bool option"

record DateEntry =
  date_dateType :: "string option"
  date_dueTimestamp :: "string option"
  date_dueTimestampLocal :: "string option"
  date_targetColumnId :: "string option"
  date_status :: "string option"

record Relation =
  rel_type :: "string option"
  rel_taskId :: "string option"
  rel_relatedTaskId :: "string option"
  rel_taskName :: "string option"
  rel_relatedTaskName :: "string option"
  rel_boardId :: "string option"

record CustomField =
  cf_name :: "string option"
  cf_id :: "string option"

record KanbanTask =
  task_id :: string
  task_name :: string
  task_columnId :: string
  task_swimlaneId :: "string option"
  task_position :: "int option"
  task_description :: "string option"
  task_color :: "string option"
  task_number :: "TaskNumber option"
  task_responsibleUserId :: "string option"
  task_totalSecondsSpent :: "int option"
  task_totalSecondsEstimate :: "int option"
  task_pointsEstimate :: "int option"
  task_groupingDate :: "string option"
  task_dates :: "DateEntry list option"
  task_subTasks :: "Subtask list option"
  task_labels :: "Label list option"
  task_customFields :: "CustomField list option"
  task_relations :: "Relation list option"

record KanbanAllTasksResponse =
  kat_columnId :: string
  kat_columnName :: string
  kat_tasksLimited :: bool
  kat_tasks :: "KanbanTask list"

section \<open>The Remote Client as seen by the tools\<close>

text \<open>
  index.ts calls the methods of one \<open>KanbanService\<close> object. A call either returns a
  value or throws, and it may change the remote board: a method is a function from the
  state \<open>'s\<close> behind the client to an outcome (\<open>Inl\<close> the error thrown) and the next
  state. The client is a parameter of every tool, a record of its sixteen methods.
  The four sparse update payloads are passed as the objects the tools build.
\<close>

type_synonym ('s, 'a) remote = "'s \<Rightarrow> (KanbanError + 'a) \<times> 's"

definition returns :: "'a \<Rightarrow> ('s, 'a) remote" where
  "returns a = (\<lambda>s. (Inr a, s))"

definition throws :: "KanbanError \<Rightarrow> ('s, 'a) remote" where
  "throws e = (\<lambda>s. (Inl e, s))"

text \<open>\<open>const x = await m; rest\<close>: an error thrown by \<open>m\<close> skips the rest.\<close>

definition await :: "('s, 'a) remote \<Rightarrow> ('a \<Rightarrow> ('s, 'b) remote) \<Rightarrow> ('s, 'b) remote" where
  "await m rest = (\<lambda>s. case m s of (Inl e, s') \<Rightarrow> (Inl e, s') | (Inr a, s') \<Rightarrow> rest a s')"

record 's KanbanService =
  getBoard :: "('s, Board) remote"
  createTask :: "CreateTaskRequest \<Rightarrow> ('s, CreateTaskResponse) remote"
  getTasksByColumnId :: "string \<Rightarrow> ('s, KanbanTask list) remote"
  getTaskDetails :: "string \<Rightarrow> bool option \<Rightarrow> ('s, KanbanTask) remote"
  updateTask :: "string \<Rightarrow> jobj \<Rightarrow> ('s, unit) remote"
  getAllTasks :: "('s, KanbanAllTasksResponse list) remote"
  addSubtask :: "string \<Rightarrow> AddSubtaskRequest \<Rightarrow> ('s, AddSubtaskResponse) remote"
  updateSubtaskByPosition :: "string \<Rightarrow> int \<Rightarrow> jobj \<Rightarrow> ('s, unit) remote"
  addLabel :: "string \<Rightarrow> AddLabelRequest \<Rightarrow> ('s, AddLabelResponse) remote"
  updateLabel :: "string \<Rightarrow> string \<Rightarrow> jobj \<Rightarrow> ('s, unit) remote"
  setTaskDueDate :: "string \<Rightarrow> SetTaskDueDateRequest \<Rightarrow> ('s, unit) remote"
  updateCustomField :: "string \<Rightarrow> string \<Rightarrow> UpdateCustomFieldRequest \<Rightarrow> ('s, unit) remote"
  addComment :: "string \<Rightarrow> AddCommentRequest \<Rightarrow> ('s, AddCommentResponse) remote"
  updateComment :: "string \<Rightarrow> string \<Rightarrow> jobj \<Rightarrow> ('s, unit) remote"
  addMultipleSubtasks :: "string \<Rightarrow> AddSubtasksRequest \<Rightarrow> ('s, AddSubtasksResponse) remote"
  createTaskWithSubtasks :: "CreateTaskWithSubtasksRequest \<Rightarrow> ('s, CreateTaskWithSubtasksResponse) remote"

section \<open>The tools (index.ts)\<close>

text \<open>
  Each tool is \<open>try { ... } catch (error) { return text(`Failed to ...: ${error.message}`) }\<close>.
  The try block is a definition of its own (\<open>_try\<close>); it returns the success narrative.
  A narrative grown by \<open>+=\<close> is the concatenation of the pieces appended, in order.
\<close>

definition try_catch :: "('s, string) remote \<Rightarrow> (KanbanError \<Rightarrow> string) \<Rightarrow> 's \<Rightarrow> string \<times> 's" where
  "try_catch body catch = (\<lambda>s. case body s of (Inl error, s') \<Rightarrow> (catch error, s') | (Inr text, s') \<Rightarrow> (text, s'))"

text \<open>\<open>if (x) out += f(x)\<close> for an optional string, and for an optional number.\<close>

definition when_str :: "string option \<Rightarrow> (string \<Rightarrow> string) \<Rightarrow> string list" where
  "when_str x f = (case x of None \<Rightarrow> [] | Some s \<Rightarrow> if s = [] then [] else [f s])"

definition when_num :: "int option \<Rightarrow> (int \<Rightarrow> string) \<Rightarrow> string list" where
  "when_num x f = (case x of None \<Rightarrow> [] | Some n \<Rightarrow> if n = 0 then [] else [f n])"

text \<open>\<open>xs.forEach((x, index) => ...)\<close>: the elements with their indices.\<close>

definition indexed :: "'a list \<Rightarrow> (nat \<times> 'a) list" where
  "indexed xs = enumerate 0 xs"

text \<open>\<open>if (xs && xs.length > 0) { ... }\<close>, with an optional else branch.\<close>

definition when_nonempty :: "'a list option \<Rightarrow> ('a list \<Rightarrow> string list) \<Rightarrow> string list \<Rightarrow> string list" where
  "when_nonempty xs f other = (case xs of None \<Rightarrow> other | Some ys \<Rightarrow> if length ys > 0 then f ys else other)"

subsection \<open>get-board\<close>

definition formatBoard :: "Board \<Rightarrow> string \<times> (string \<times> string) list" where
  "formatBoard board = (board_name board, map (\<lambda>col. (col_name col, col_uniqueId col)) (board_columns board))"

definition get_board_try :: "'s KanbanService \<Rightarrow> ('s, string) remote" where
  "get_board_try svc =
     await (getBoard svc) (\<lambda>board.
       let formattedBoard = formatBoard board in
       returns (''Board: '' @ fst formattedBoard @ ''\<newline>\<newline>Columns:\<newline>'' @
                join ''\<newline>'' (map (\<lambda>(name, ident). ''- '' @ name @ '' (ID: '' @ ident @ '')'') (snd formattedBoard))))"

definition get_board :: "'s KanbanService \<Rightarrow> 's \<Rightarrow> string \<times> 's" where
  "get_board svc = try_catch (get_board_try svc) (\<lambda>error. ''Failed to get board: '' @ message error)"

subsection \<open>create-task\<close>

definition create_task_try :: "'s KanbanService \<Rightarrow> string \<Rightarrow> string \<Rightarrow> string option \<Rightarrow> ('s, string) remote" where
  "create_task_try svc name columnId description =
     await (createTask svc \<lparr>ctr_name = name, ctr_columnId = columnId, ctr_swimlaneId = None,
                            ctr_position = None, ctr_color = None, ctr_description = description,
                            ctr_totalSecondsEstimate = None, ctr_pointsEstimate = None\<rparr>) (\<lambda>task.
       returns (''Successfully created task!\<newline>Task ID: '' @ cres_taskId task))"

definition create_task :: "'s KanbanService \<Rightarrow> string \<Rightarrow> string \<Rightarrow> string option \<Rightarrow> 's \<Rightarrow> string \<times> 's" where
  "create_task svc name columnId description =
     try_catch (create_task_try svc name columnId description)
       (\<lambda>error. ''Failed to create task: '' @ message error)"

subsection \<open>get-tasks\<close>

definition get_tasks_try :: "'s KanbanService \<Rightarrow> string \<Rightarrow> ('s, string) remote" where
  "get_tasks_try svc columnId =
     await (getTasksByColumnId svc columnId) (\<lambda>tasks.
       let formattedTasks = join ''\<newline>'' (map (\<lambda>task.
             ''- '' @ task_name task @
             concat (when_str (task_description task) (\<lambda>d. '' ('' @ d @ '')'')) @
             '' [ID: '' @ task_id task @ '']'') tasks)
       in returns (if length tasks > 0 then ''Tasks in column:\<newline>'' @ formattedTasks
                   else ''No tasks found in this column''))"

definition get_tasks :: "'s KanbanService \<Rightarrow> string \<Rightarrow> 's \<Rightarrow> string \<times> 's" where
  "get_tasks svc columnId =
     try_catch (get_tasks_try svc columnId) (\<lambda>error. ''Failed to get tasks: '' @ message error)"

subsection \<open>get-task-details\<close>

definition details_subtask_line :: "nat \<times> Subtask \<Rightarrow> string" where
  "details_subtask_line = (\<lambda>(index, subtask).
     let status = (if truthy_bool (sub_finished subtask) then glyph_done else glyph_open) in
     ''  '' @ show_nat (index + 1) @ ''. '' @ status @ '' '' @ str_or (sub_name subtask) ''Unnamed subtask'' @
     concat (when_str (sub_userId subtask) (\<lambda>u. '' (assigned: '' @ u @ '')'')) @
     concat (when_str (sub_dueDateTimestamp subtask) (\<lambda>d. '' (due: '' @ d @ '')'')) @
     ''\<newline>'')"

definition details_date_line :: "nat \<times> DateEntry \<Rightarrow> string" where
  "details_date_line = (\<lambda>(index, date).
     ''  '' @ show_nat (index + 1) @ ''. '' @ str_or (date_dateType date) ''dueDate'' @ '': '' @
     str_or (date_dueTimestamp date) ''not set'' @
     concat (when_str (date_targetColumnId date) (\<lambda>c. '' (target column: '' @ c @ '')'')) @
     concat (when_str (date_status date) (\<lambda>st. '' ['' @ st @ '']'')) @
     ''\<newline>'')"

definition details_relation_line :: "nat \<times> Relation \<Rightarrow> string" where
  "details_relation_line = (\<lambda>(index, relation).
     ''  '' @ show_nat (index + 1) @ ''. '' @ str_or (rel_type relation) ''related'' @ '': '' @
     str_or (rel_taskId relation) (str_or (rel_relatedTaskId relation) ''unknown'') @
     concat (when_str (opt_or (rel_taskName relation) (rel_relatedTaskName relation))
               (\<lambda>n. '' \"'' @ n @ ''\"'')) @
     concat (when_str (rel_boardId relation) (\<lambda>b. '' (board: '' @ b @ '')'')) @
     ''\<newline>'')"

definition task_details_pieces :: "KanbanTask \<Rightarrow> string list" where
  "task_details_pieces task =
     [''Task Details:\<newline>'',
      ''- ID: '' @ task_id task @ ''\<newline>'',
      ''- Name: '' @ task_name task @ ''\<newline>'',
      ''- Column ID: '' @ task_columnId task @ ''\<newline>''] @
     when_str (task_description task) (\<lambda>d. ''- Description: '' @ d @ ''\<newline>'') @
     when_str (task_color task) (\<lambda>c. ''- Color: '' @ c @ ''\<newline>'') @
     when_num (task_position task) (\<lambda>p. ''- Position: '' @ show_int p @ ''\<newline>'') @
     (case task_number task of None \<Rightarrow> []
      | Some n \<Rightarrow> [''- Number: '' @ str_or (tn_prefix n) [] @ show_int (tn_value n) @ ''\<newline>'']) @
     when_str (task_responsibleUserId task) (\<lambda>u. ''- Responsible User: '' @ u @ ''\<newline>'') @
     when_num (task_totalSecondsSpent task) (\<lambda>n. ''- Time Spent: '' @ show_int n @ '' seconds\<newline>'') @
     when_num (task_totalSecondsEstimate task) (\<lambda>n. ''- Time Estimate: '' @ show_int n @ '' seconds\<newline>'') @
     when_num (task_pointsEstimate task) (\<lambda>n. ''- Points Estimate: '' @ show_int n @ ''\<newline>'') @
     when_str (task_groupingDate task) (\<lambda>g. ''- Grouping Date: '' @ g @ ''\<newline>'') @
     when_nonempty (task_subTasks task) (\<lambda>subTasks.
        (''- Subtasks ('' @ show_nat (length subTasks) @ ''):\<newline>'') #
        map details_subtask_line (indexed subTasks)) [] @
     when_nonempty (task_labels task) (\<lambda>labels.
        [''- Labels: '' @ join '', '' (map lab_name labels) @ ''\<newline>'']) [] @
     when_nonempty (task_dates task) (\<lambda>dates.
        (''- Dates ('' @ show_nat (length dates) @ ''):\<newline>'') #
        map details_date_line (indexed dates)) [] @
     when_nonempty (task_relations task) (\<lambda>relations.
        (''- Relations ('' @ show_nat (length relations) @ ''):\<newline>'') #
        map details_relation_line (indexed relations)) []"

definition get_task_details_try :: "'s KanbanService \<Rightarrow> string \<Rightarrow> bool option \<Rightarrow> ('s, string) remote" where
  "get_task_details_try svc taskId includePosition =
     await (getTaskDetails svc taskId includePosition) (\<lambda>task.
       returns (concat (task_details_pieces task)))"

definition get_task_details :: "'s KanbanService \<Rightarrow> string \<Rightarrow> bool option \<Rightarrow> 's \<Rightarrow> string \<times> 's" where
  "get_task_details svc taskId includePosition =
     try_catch (get_task_details_try svc taskId includePosition)
       (\<lambda>error. ''Failed to get task details: '' @ message error)"

subsection \<open>update-task\<close>

definition update_task_updates ::
  "string option \<Rightarrow> string option \<Rightarrow> string option \<Rightarrow> string option \<Rightarrow> str_or_num option \<Rightarrow>
   string option \<Rightarrow> int option \<Rightarrow> int option \<Rightarrow> jobj" where
  "update_task_updates name columnId description color position responsibleUserId
                       totalSecondsEstimate pointsEstimate =
     (assign_if_defined ''pointsEstimate'' JNum pointsEstimate
     (assign_if_defined ''totalSecondsEstimate'' JNum totalSecondsEstimate
     (assign_if_defined ''responsibleUserId'' JStr responsibleUserId
     (assign_if_defined ''position'' str_or_num_json position
     (assign_if_defined ''color'' JStr color
     (assign_if_defined ''description'' JStr description
     (assign_if_defined ''columnId'' JStr columnId
     (assign_if_defined ''name'' JStr name []))))))))"

definition updated_task_pieces :: "KanbanTask \<Rightarrow> string list" where
  "updated_task_pieces updatedTask =
     [''Successfully updated task!\<newline>'',
      ''- ID: '' @ task_id updatedTask @ ''\<newline>'',
      ''- Name: '' @ task_name updatedTask @ ''\<newline>'',
      ''- Column ID: '' @ task_columnId updatedTask @ ''\<newline>''] @
     when_str (task_description updatedTask) (\<lambda>d. ''- Description: '' @ d @ ''\<newline>'') @
     when_str (task_color updatedTask) (\<lambda>c. ''- Color: '' @ c @ ''\<newline>'') @
     when_num (task_position updatedTask) (\<lambda>p. ''- Position: '' @ show_int p @ ''\<newline>'') @
     when_str (task_groupingDate updatedTask) (\<lambda>g. ''- Grouping Date: '' @ g @ ''\<newline>'')"

definition update_task_try ::
  "'s KanbanService \<Rightarrow> string \<Rightarrow> string option \<Rightarrow> string option \<Rightarrow> string option \<Rightarrow> string option \<Rightarrow>
   str_or_num option \<Rightarrow> string option \<Rightarrow> int option \<Rightarrow> int option \<Rightarrow> ('s, string) remote" where
  "update_task_try svc taskId name columnId description color position responsibleUserId
                   totalSecondsEstimate pointsEstimate =
     (let updates = update_task_updates name columnId description color position responsibleUserId
                      totalSecondsEstimate pointsEstimate in
      await (updateTask svc taskId updates) (\<lambda>_.
      await (getTaskDetails svc taskId None) (\<lambda>updatedTask.
        returns (concat (updated_task_pieces updatedTask)))))"

definition update_task ::
  "'s KanbanService \<Rightarrow> string \<Rightarrow> string option \<Rightarrow> string option \<Rightarrow> string option \<Rightarrow> string option \<Rightarrow>
   str_or_num option \<Rightarrow> string option \<Rightarrow> int option \<Rightarrow> int option \<Rightarrow> 's \<Rightarrow> string \<times> 's" where
  "update_task svc taskId name columnId description color position responsibleUserId
               totalSecondsEstimate pointsEstimate =
     try_catch (update_task_try svc taskId name columnId description color position responsibleUserId
                  totalSecondsEstimate pointsEstimate)
       (\<lambda>error. ''Failed to update task: '' @ message error)"

subsection \<open>get-all-tasks\<close>

definition all_tasks_task_line :: "nat \<times> KanbanTask \<Rightarrow> string" where
  "all_tasks_task_line = (\<lambda>(index, task).
     ''   '' @ show_nat (index + 1) @ ''. '' @ task_name task @
     concat (when_str (task_color task) (\<lambda>c. '' ['' @ toUpperCase c @ '']'')) @
     concat (when_str (task_description task) (\<lambda>d. '' - '' @ abbreviate d)) @
     '' [ID: '' @ task_id task @ '']\<newline>'')"

definition limited_notice :: string where
  "limited_notice = ''   '' @ glyph_warning @ '' This column has more tasks (limited to 20)\<newline>''"

definition all_tasks_column_pieces :: "KanbanAllTasksResponse \<Rightarrow> string list" where
  "all_tasks_column_pieces column =
     [glyph_folder @ '' **'' @ kat_columnName column @ ''** ('' @
        show_nat (length (kat_tasks column)) @ '' tasks):\<newline>''] @
     (if length (kat_tasks column) = 0 then [''   - No tasks in this column\<newline>'']
      else map all_tasks_task_line (indexed (kat_tasks column))) @
     (if kat_tasksLimited column then [limited_notice] else []) @
     [''\<newline>'']"

definition get_all_tasks_try :: "'s KanbanService \<Rightarrow> ('s, string) remote" where
  "get_all_tasks_try svc =
     await (getAllTasks svc) (\<lambda>allTasksResponse.
       returns (concat (''All Tasks by Column:\<newline>\<newline>'' #
                        concat (map all_tasks_column_pieces allTasksResponse))))"

definition get_all_tasks :: "'s KanbanService \<Rightarrow> 's \<Rightarrow> string \<times> 's" where
  "get_all_tasks svc =
     try_catch (get_all_tasks_try svc) (\<lambda>error. ''Failed to get all tasks: '' @ message error)"

subsection \<open>add-subtask\<close>

definition current_subtask_line :: "nat \<times> Subtask \<Rightarrow> string \<Rightarrow> string" where
  "current_subtask_line = (\<lambda>(index, subtask) highlight.
     let status = (if truthy_bool (sub_finished subtask) then glyph_done else glyph_open) in
     ''  '' @ show_nat (index + 1) @ ''. '' @ status @ '' '' @ str_or (sub_name subtask) ''Unnamed subtask'' @
     concat (when_str (sub_userId subtask) (\<lambda>u. '' (assigned to: '' @ u @ '')'')) @
     concat (when_str (sub_dueDateTimestamp subtask) (\<lambda>d. '' (due: '' @ d @ '')'')) @
     highlight @ ''\<newline>'')"

definition add_subtask_try ::
  "'s KanbanService \<Rightarrow> string \<Rightarrow> string \<Rightarrow> bool option \<Rightarrow> string option \<Rightarrow> string option \<Rightarrow>
   string option \<Rightarrow> ('s, string) remote" where
  "add_subtask_try svc taskId name finished userId dueDateTimestamp dueDateTimestampLocal =
     (let subtask = \<lparr>asr_name = name, asr_finished = finished, asr_userId = userId,
                      asr_dueDateTimestamp = dueDateTimestamp,
                      asr_dueDateTimestampLocal = dueDateTimestampLocal\<rparr> in
      await (addSubtask svc taskId subtask) (\<lambda>result.
      await (getTaskDetails svc taskId None) (\<lambda>updatedTask.
        returns (concat (
          [''Successfully added subtask!\<newline>'',
           ''- Subtask name: '' @ name @ ''\<newline>'',
           ''- Inserted at position: '' @ show_int (ares_insertIndex result) @ ''\<newline>'',
           ''- Task: '' @ task_name updatedTask @ ''\<newline>''] @
          when_nonempty (task_subTasks updatedTask) (\<lambda>subTasks.
            (''\<newline>Current subtasks ('' @ show_nat (length subTasks) @ ''):\<newline>'') #
            map (\<lambda>p. current_subtask_line p []) (indexed subTasks)) [])))))"

definition add_subtask ::
  "'s KanbanService \<Rightarrow> string \<Rightarrow> string \<Rightarrow> bool option \<Rightarrow> string option \<Rightarrow> string option \<Rightarrow>
   string option \<Rightarrow> 's \<Rightarrow> string \<times> 's" where
  "add_subtask svc taskId name finished userId dueDateTimestamp dueDateTimestampLocal =
     try_catch (add_subtask_try svc taskId name finished userId dueDateTimestamp dueDateTimestampLocal)
       (\<lambda>error. ''Failed to add subtask: '' @ message error)"

subsection \<open>update-subtask-by-position\<close>

definition update_subtask_updates ::
  "string option \<Rightarrow> bool option \<Rightarrow> string option \<Rightarrow> string option \<Rightarrow> string option \<Rightarrow> jobj" where
  "update_subtask_updates name finished userId dueDateTimestamp dueDateTimestampLocal =
     (assign_if_defined ''dueDateTimestampLocal'' JStr dueDateTimestampLocal
     (assign_if_defined ''dueDateTimestamp'' JStr dueDateTimestamp
     (assign_if_defined ''userId'' JStr userId
     (assign_if_defined ''finished'' JBool finished
     (assign_if_defined ''name'' JStr name [])))))"

definition update_subtask_by_position_try ::
  "'s KanbanService \<Rightarrow> string \<Rightarrow> int \<Rightarrow> string option \<Rightarrow> bool option \<Rightarrow> string option \<Rightarrow>
   string option \<Rightarrow> string option \<Rightarrow> ('s, string) remote" where
  "update_subtask_by_position_try svc taskId index name finished userId dueDateTimestamp
                                  dueDateTimestampLocal =
     (let updates = update_subtask_updates name finished userId dueDateTimestamp dueDateTimestampLocal in
      await (updateSubtaskByPosition svc taskId index updates) (\<lambda>_.
      await (getTaskDetails svc taskId None) (\<lambda>updatedTask.
        returns (concat (
          [''Successfully updated subtask at position '' @ show_int index @ ''!\<newline>'',
           ''- Task: '' @ task_name updatedTask @ ''\<newline>''] @
          when_nonempty (task_subTasks updatedTask) (\<lambda>subTasks.
            (''\<newline>Current subtasks ('' @ show_nat (length subTasks) @ ''):\<newline>'') #
            map (\<lambda>p. current_subtask_line p
                        (if int (fst p) = index then '' '' @ glyph_arrow @ '' UPDATED'' else []))
                (indexed subTasks))
            [''\<newline>No subtasks found in this task.''])))))"

definition update_subtask_by_position ::
  "'s KanbanService \<Rightarrow> string \<Rightarrow> int \<Rightarrow> string option \<Rightarrow> bool option \<Rightarrow> string option \<Rightarrow>
   string option \<Rightarrow> string option \<Rightarrow> 's \<Rightarrow> string \<times> 's" where
  "update_subtask_by_position svc taskId index name finished userId dueDateTimestamp
                              dueDateTimestampLocal =
     try_catch (update_subtask_by_position_try svc taskId index name finished userId dueDateTimestamp
                  dueDateTimestampLocal)
       (\<lambda>error. ''Failed to update subtask: '' @ message error)"

subsection \<open>add-label and update-label\<close>

definition current_label_line :: "nat \<times> Label \<Rightarrow> string" where
  "current_label_line = (\<lambda>(index, label).
     let pinnedStatus = (if truthy_bool (lab_pinned label) then glyph_pin else glyph_label) in
     ''  '' @ show_nat (index + 1) @ ''. '' @ pinnedStatus @ '' '' @ lab_name label @ ''\<newline>'')"

definition current_labels_pieces :: "KanbanTask \<Rightarrow> string list" where
  "current_labels_pieces updatedTask =
     when_nonempty (task_labels updatedTask) (\<lambda>labels.
       (''\<newline>Current labels ('' @ show_nat (length labels) @ ''):\<newline>'') #
       map current_label_line (indexed labels)) []"

definition add_label_try :: "'s KanbanService \<Rightarrow> string \<Rightarrow> string \<Rightarrow> bool option \<Rightarrow> ('s, string) remote" where
  "add_label_try svc taskId name pinned =
     (let label = \<lparr>alr_name = name, alr_pinned = pinned\<rparr> in
      await (addLabel svc taskId label) (\<lambda>result.
      await (getTaskDetails svc taskId None) (\<lambda>updatedTask.
        returns (concat (
          [''Successfully added label!\<newline>'',
           ''- Label name: '' @ name @ ''\<newline>'',
           ''- Pinned: '' @ show_bool (truthy_bool pinned) @ ''\<newline>'',
           ''- Inserted at position: '' @ show_int (lres_insertIndex result) @ ''\<newline>'',
           ''- Task: '' @ task_name updatedTask @ ''\<newline>''] @
          current_labels_pieces updatedTask)))))"

definition add_label :: "'s KanbanService \<Rightarrow> string \<Rightarrow> string \<Rightarrow> bool option \<Rightarrow> 's \<Rightarrow> string \<times> 's" where
  "add_label svc taskId name pinned =
     try_catch (add_label_try svc taskId name pinned) (\<lambda>error. ''Failed to add label: '' @ message error)"

definition update_label_updates :: "string option \<Rightarrow> bool option \<Rightarrow> jobj" where
  "update_label_updates name pinned =
     (assign_if_defined ''pinned'' JBool pinned
     (assign_if_defined ''name'' JStr name []))"

definition update_label_try ::
  "'s KanbanService \<Rightarrow> string \<Rightarrow> string \<Rightarrow> string option \<Rightarrow> bool option \<Rightarrow> ('s, string) remote" where
  "update_label_try svc taskId labelName name pinned =
     (let updates = update_label_updates name pinned in
      await (updateLabel svc taskId labelName updates) (\<lambda>_.
      await (getTaskDetails svc taskId None) (\<lambda>updatedTask.
        returns (concat (
          [''Successfully updated label!\<newline>'',
           ''- Original label: '' @ labelName @ ''\<newline>''] @
          when_str name (\<lambda>n. ''- New name: '' @ n @ ''\<newline>'') @
          (case pinned of None \<Rightarrow> [] | Some p \<Rightarrow> [''- Pinned: '' @ show_bool p @ ''\<newline>'']) @
          [''- Task: '' @ task_name updatedTask @ ''\<newline>''] @
          current_labels_pieces updatedTask)))))"

definition update_label ::
  "'s KanbanService \<Rightarrow> string \<Rightarrow> string \<Rightarrow> string option \<Rightarrow> bool option \<Rightarrow> 's \<Rightarrow> string \<times> 's" where
  "update_label svc taskId labelName name pinned =
     try_catch (update_label_try svc taskId labelName name pinned)
       (\<lambda>error. ''Failed to update label: '' @ message error)"

subsection \<open>set-task-due-date\<close>

text \<open>\<open>if (x) obj.k = x\<close>: a falsy value leaves the key out.\<close>

definition keep_truthy :: "string option \<Rightarrow> string option" where
  "keep_truthy x = (if truthy_str x then x else None)"

definition set_task_due_date_try ::
  "'s KanbanService \<Rightarrow> string \<Rightarrow> string \<Rightarrow> string \<Rightarrow> string option \<Rightarrow> string option \<Rightarrow>
   string option \<Rightarrow> ('s, string) remote" where
  "set_task_due_date_try svc taskId dueTimestamp targetColumnId dueTimestampLocal dateType status =
     (let dateInfo = \<lparr>sdr_dueTimestamp = dueTimestamp, sdr_targetColumnId = targetColumnId,
                       sdr_dueTimestampLocal = keep_truthy dueTimestampLocal,
                       sdr_dateType = keep_truthy dateType,
                       sdr_status = keep_truthy status\<rparr> in
      await (setTaskDueDate svc taskId dateInfo) (\<lambda>_.
      await (getTaskDetails svc taskId None) (\<lambda>updatedTask.
        returns (concat (
          [''Successfully set due date!\<newline>'',
           ''- Task: '' @ task_name updatedTask @ ''\<newline>'',
           ''- Due: '' @ dueTimestamp @ ''\<newline>'',
           ''- Target column: '' @ targetColumnId @ ''\<newline>'',
           ''- Status: '' @ str_or status ''active'' @ ''\<newline>''] @
          when_nonempty (task_dates updatedTask) (\<lambda>dates.
            (''\<newline>Current dates ('' @ show_nat (length dates) @ ''):\<newline>'') #
            map (\<lambda>(index, date). ''  '' @ show_nat (index + 1) @ ''. '' @
                   str_or (date_dateType date) ''date'' @ '': '' @
                   str_or (date_dueTimestamp date) ''not set'' @ ''\<newline>'')
                (indexed dates)) [])))))"

definition set_task_due_date ::
  "'s KanbanService \<Rightarrow> string \<Rightarrow> string \<Rightarrow> string \<Rightarrow> string option \<Rightarrow> string option \<Rightarrow>
   string option \<Rightarrow> 's \<Rightarrow> string \<times> 's" where
  "set_task_due_date svc taskId dueTimestamp targetColumnId dueTimestampLocal dateType status =
     try_catch (set_task_due_date_try svc taskId dueTimestamp targetColumnId dueTimestampLocal dateType status)
       (\<lambda>error. ''Failed to set due date: '' @ message error)"

subsection \<open>update-custom-field\<close>

definition update_custom_field_try ::
  "'s KanbanService \<Rightarrow> string \<Rightarrow> string \<Rightarrow> string option \<Rightarrow> int option \<Rightarrow> ('s, string) remote" where
  "update_custom_field_try svc taskId customFieldId textValue numberValue =
     (let val = \<lparr>cfv_text = textValue, cfv_number = numberValue\<rparr> in
      await (updateCustomField svc taskId customFieldId \<lparr>ucf_value = val\<rparr>) (\<lambda>_.
      await (getTaskDetails svc taskId None) (\<lambda>updatedTask.
        returns (concat (
          [''Successfully updated custom field!\<newline>'',
           ''- Task: '' @ task_name updatedTask @ ''\<newline>'',
           ''- Custom field ID: '' @ customFieldId @ ''\<newline>''] @
          when_str textValue (\<lambda>t. ''- Text value: '' @ t @ ''\<newline>'') @
          when_num numberValue (\<lambda>n. ''- Number value: '' @ show_int n @ ''\<newline>'') @
          when_nonempty (task_customFields updatedTask) (\<lambda>customFields.
            (''\<newline>Current custom fields ('' @ show_nat (length customFields) @ ''):\<newline>'') #
            map (\<lambda>(index, field). ''  '' @ show_nat (index + 1) @ ''. Field: '' @
                   str_or (cf_name field) (str_or (cf_id field) ''unnamed'') @ ''\<newline>'')
                (indexed customFields)) [])))))"

definition update_custom_field ::
  "'s KanbanService \<Rightarrow> string \<Rightarrow> string \<Rightarrow> string option \<Rightarrow> int option \<Rightarrow> 's \<Rightarrow> string \<times> 's" where
  "update_custom_field svc taskId customFieldId textValue numberValue =
     try_catch (update_custom_field_try svc taskId customFieldId textValue numberValue)
       (\<lambda>error. ''Failed to update custom field: '' @ message error)"

subsection \<open>add-comment and update-comment\<close>

definition add_comment_try ::
  "'s KanbanService \<Rightarrow> string \<Rightarrow> string \<Rightarrow> string option \<Rightarrow> string option \<Rightarrow> ('s, string) remote" where
  "add_comment_try svc taskId text authorUserId createdTimestamp =
     (let comment = \<lparr>acr_text = text, acr_authorUserId = authorUserId,
                      acr_createdTimestamp = createdTimestamp\<rparr> in
      await (addComment svc taskId comment) (\<lambda>result.
      await (getTaskDetails svc taskId None) (\<lambda>updatedTask.
        returns (concat (
          [''Successfully added comment!\<newline>'',
           ''- Comment ID: '' @ cmres_taskCommentId result @ ''\<newline>'',
           ''- Text: '' @ abbreviate text @ ''\<newline>'',
           ''- Task: '' @ task_name updatedTask @ ''\<newline>''] @
          when_str authorUserId (\<lambda>a. ''- Author: '' @ a @ ''\<newline>''))))))"

definition add_comment ::
  "'s KanbanService \<Rightarrow> string \<Rightarrow> string \<Rightarrow> string option \<Rightarrow> string option \<Rightarrow> 's \<Rightarrow> string \<times> 's" where
  "add_comment svc taskId text authorUserId createdTimestamp =
     try_catch (add_comment_try svc taskId text authorUserId createdTimestamp)
       (\<lambda>error. ''Failed to add comment: '' @ message error)"

definition update_comment_updates ::
  "string option \<Rightarrow> string option \<Rightarrow> string option \<Rightarrow> string option \<Rightarrow> jobj" where
  "update_comment_updates text authorUserId createdTimestamp updatedTimestamp =
     (assign_if_defined ''updatedTimestamp'' JStr updatedTimestamp
     (assign_if_defined ''createdTimestamp'' JStr createdTimestamp
     (assign_if_defined ''authorUserId'' JStr authorUserId
     (assign_if_defined ''text'' JStr text []))))"

definition update_comment_try ::
  "'s KanbanService \<Rightarrow> string \<Rightarrow> string \<Rightarrow> string option \<Rightarrow> string option \<Rightarrow> string option \<Rightarrow>
   string option \<Rightarrow> ('s, string) remote" where
  "update_comment_try svc taskId commentId text authorUserId createdTimestamp updatedTimestamp =
     (let updates = update_comment_updates text authorUserId createdTimestamp updatedTimestamp in
      await (updateComment svc taskId commentId updates) (\<lambda>_.
      await (getTaskDetails svc taskId None) (\<lambda>updatedTask.
        returns (concat (
          [''Successfully updated comment!\<newline>'',
           ''- Task: '' @ task_name updatedTask @ ''\<newline>'',
           ''- Comment ID: '' @ commentId @ ''\<newline>''] @
          when_str text (\<lambda>t. ''- New text: '' @ abbreviate t @ ''\<newline>'') @
          when_str authorUserId (\<lambda>a. ''- Author: '' @ a @ ''\<newline>''))))))"

definition update_comment ::
  "'s KanbanService \<Rightarrow> string \<Rightarrow> string \<Rightarrow> string option \<Rightarrow> string option \<Rightarrow> string option \<Rightarrow>
   string option \<Rightarrow> 's \<Rightarrow> string \<times> 's" where
  "update_comment svc taskId commentId text authorUserId createdTimestamp updatedTimestamp =
     try_catch (update_comment_try svc taskId commentId text authorUserId createdTimestamp updatedTimestamp)
       (\<lambda>error. ''Failed to update comment: '' @ message error)"

subsection \<open>add-subtasks and create-task-with-subtasks\<close>

definition added_subtask_line :: "nat \<times> AddedSubtask \<Rightarrow> string" where
  "added_subtask_line = (\<lambda>(index, subtask).
     show_nat (index + 1) @ ''. \"'' @ as_name subtask @ ''\" (position: '' @
     show_int (as_insertIndex subtask) @ '')\<newline>'')"

definition plain_subtask_line :: "nat \<times> Subtask \<Rightarrow> string" where
  "plain_subtask_line = (\<lambda>(index, subtask).
     let status = (if truthy_bool (sub_finished subtask) then glyph_done else glyph_open) in
     ''  '' @ show_nat (index + 1) @ ''. '' @ status @ '' '' @
     str_or (sub_name subtask) ''Unnamed subtask'' @ ''\<newline>'')"

definition add_subtasks_try ::
  "'s KanbanService \<Rightarrow> string \<Rightarrow> AddSubtaskRequest list \<Rightarrow> ('s, string) remote" where
  "add_subtasks_try svc taskId subtasks =
     await (addMultipleSubtasks svc taskId \<lparr>asq_subtasks = subtasks\<rparr>) (\<lambda>result.
     await (getTaskDetails svc taskId None) (\<lambda>updatedTask.
       returns (concat (
         [''Successfully added '' @ show_int (asres_totalAdded result) @ '' subtasks!\<newline>'',
          ''- Task: '' @ task_name updatedTask @ ''\<newline>'',
          ''- Total subtasks added: '' @ show_int (asres_totalAdded result) @ ''\<newline>\<newline>''] @
         map added_subtask_line (indexed (asres_addedSubtasks result)) @
         when_nonempty (task_subTasks updatedTask) (\<lambda>subTasks.
           (''\<newline>All current subtasks ('' @ show_nat (length subTasks) @ ''):\<newline>'') #
           map plain_subtask_line (indexed subTasks)) []))))"

definition add_subtasks ::
  "'s KanbanService \<Rightarrow> string \<Rightarrow> AddSubtaskRequest list \<Rightarrow> 's \<Rightarrow> string \<times> 's" where
  "add_subtasks svc taskId subtasks =
     try_catch (add_subtasks_try svc taskId subtasks)
       (\<lambda>error. ''Failed to add subtasks: '' @ message error)"

definition create_task_with_subtasks_try ::
  "'s KanbanService \<Rightarrow> string \<Rightarrow> string \<Rightarrow> string option \<Rightarrow> string option \<Rightarrow> str_or_num option \<Rightarrow>
   AddSubtaskRequest list \<Rightarrow> ('s, string) remote" where
  "create_task_with_subtasks_try svc name columnId description color position subtasks =
     await (createTaskWithSubtasks svc
              \<lparr>cws_name = name, cws_columnId = columnId, cws_description = description,
               cws_color = color, cws_position = position, cws_subtasks = subtasks\<rparr>) (\<lambda>result.
     await (getTaskDetails svc (cwres_taskId result) None) (\<lambda>createdTask.
       returns (concat (
         [''Successfully created task with '' @ show_int (cwres_totalSubtasks result) @ '' subtasks!\<newline>'',
          ''- Task ID: '' @ cwres_taskId result @ ''\<newline>'',
          ''- Task Name: '' @ cwres_taskName result @ ''\<newline>'',
          ''- Column ID: '' @ columnId @ ''\<newline>''] @
         when_str description (\<lambda>d. ''- Description: '' @ d @ ''\<newline>'') @
         when_str color (\<lambda>c. ''- Color: '' @ c @ ''\<newline>'') @
         [''- Total subtasks: '' @ show_int (cwres_totalSubtasks result) @ ''\<newline>\<newline>'',
          ''Added subtasks:\<newline>''] @
         map added_subtask_line (indexed (cwres_addedSubtasks result)) @
         when_nonempty (task_subTasks createdTask) (\<lambda>subTasks.
           ''\<newline>Current subtasks status:\<newline>'' #
           map plain_subtask_line (indexed subTasks)) []))))"

definition create_task_with_subtasks ::
  "'s KanbanService \<Rightarrow> string \<Rightarrow> string \<Rightarrow> string option \<Rightarrow> string option \<Rightarrow> str_or_num option \<Rightarrow>
   AddSubtaskRequest list \<Rightarrow> 's \<Rightarrow> string \<times> 's" where
  "create_task_with_subtasks svc name columnId description color position subtasks =
     try_catch (create_task_with_subtasks_try svc name columnId description color position subtasks)
       (\<lambda>error. ''Failed to create task with subtasks: '' @ message error)"

section \<open>Registration: schemas and the tool-invocation boundary\<close>

text \<open>
  \<open>server.tool(name, description, shape, callback)\<close> registers a callback together with
  a shape of zod schemas. The schemas that index.ts uses are \<open>z.string()\<close>, \<open>z.number()\<close>,
  \<open>z.boolean()\<close>, \<open>z.enum([...])\<close>, \<open>z.union([...])\<close>, \<open>z.array(...)\<close>, \<open>z.object({...})\<close>
  and \<open>.optional()\<close>. \<open>accepts sch v\<close> says that the schema accepts the value read from
  the arguments (\<open>None\<close> when the key is absent).
\<close>

datatype zschema =
    ZString
  | ZNumber
  | ZBoolean
  | ZEnum "string list"
  | ZUnion "zschema list"
  | ZOptional zschema
  | ZArray zschema
  | ZObject "(string \<times> zschema) list"

fun accepts :: "zschema \<Rightarrow> jvalue option \<Rightarrow> bool" where
  "accepts ZString v = (case v of Some (JStr _) \<Rightarrow> True | _ \<Rightarrow> False)"
| "accepts ZNumber v = (case v of Some (JNum _) \<Rightarrow> True | _ \<Rightarrow> False)"
| "accepts ZBoolean v = (case v of Some (JBool _) \<Rightarrow> True | _ \<Rightarrow> False)"
| "accepts (ZEnum values) v = (case v of Some (JStr s) \<Rightarrow> s \<in> set values | _ \<Rightarrow> False)"
| "accepts (ZUnion options) v = list_ex (\<lambda>sch. accepts sch v) options"
| "accepts (ZOptional sch) v = (case v of None \<Rightarrow> True | Some _ \<Rightarrow> accepts sch v)"
| "accepts (ZArray sch) v =
     (case v of Some (JArr xs) \<Rightarrow> list_all (\<lambda>x. accepts sch (Some x)) xs | _ \<Rightarrow> False)"
| "accepts (ZObject shape) v =
     (case v of Some (JObj obj) \<Rightarrow> list_all (\<lambda>entry. accepts (snd entry) (map_of obj (fst entry))) shape
      | _ \<Rightarrow> False)"

text \<open>The arguments of a call are accepted when every entry of the shape accepts its key.\<close>

definition validate :: "(string \<times> zschema) list \<Rightarrow> jobj \<Rightarrow> bool" where
  "validate shape args = accepts (ZObject shape) (Some (JObj args))"

definition color_enum :: zschema where
  "color_enum = ZEnum [''yellow'', ''white'', ''red'', ''green'', ''blue'', ''purple'', ''orange'',
                       ''cyan'', ''brown'', ''magenta'']"

definition subtask_object :: zschema where
  "subtask_object = ZObject
     [(''name'', ZString),
      (''finished'', ZOptional ZBoolean),
      (''userId'', ZOptional ZString),
      (''dueDateTimestamp'', ZOptional ZString),
      (''dueDateTimestampLocal'', ZOptional ZString)]"

datatype tool =
    GetBoard | CreateTask | GetTasks | GetTaskDetails | UpdateTask | GetAllTasks | AddSubtask
  | UpdateSubtaskByPosition | AddLabel | UpdateLabel | SetTaskDueDate | UpdateCustomField
  | AddComment | UpdateComment | AddSubtasks | CreateTaskWithSubtasks

fun tool_name :: "tool \<Rightarrow> string" where
  "tool_name GetBoard = ''get-board''"
| "tool_name CreateTask = ''create-task''"
| "tool_name GetTasks = ''get-tasks''"
| "tool_name GetTaskDetails = ''get-task-details''"
| "tool_name UpdateTask = ''update-task''"
| "tool_name GetAllTasks = ''get-all-tasks''"
| "tool_name AddSubtask = ''add-subtask''"
| "tool_name UpdateSubtaskByPosition = ''update-subtask-by-position''"
| "tool_name AddLabel = ''add-label''"
| "tool_name UpdateLabel = ''update-label''"
| "tool_name SetTaskDueDate = ''set-task-due-date''"
| "tool_name UpdateCustomField = ''update-custom-field''"
| "tool_name AddComment = ''add-comment''"
| "tool_name UpdateComment = ''update-comment''"
| "tool_name AddSubtasks = ''add-subtasks''"
| "tool_name CreateTaskWithSubtasks = ''create-task-with-subtasks''"

fun inputSchema :: "tool \<Rightarrow> (string \<times> zschema) list" where
  "inputSchema GetBoard = []"
| "inputSchema CreateTask =
     [(''name'', ZString), (''columnId'', ZString), (''description'', ZOptional ZString)]"
| "inputSchema GetTasks = [(''columnId'', ZString)]"
| "inputSchema GetTaskDetails = [(''taskId'', ZString), (''includePosition'', ZOptional ZBoolean)]"
| "inputSchema UpdateTask =
     [(''taskId'', ZString),
      (''name'', ZOptional ZString),
      (''columnId'', ZOptional ZString),
      (''description'', ZOptional ZString),
      (''color'', ZOptional color_enum),
      (''position'', ZOptional (ZUnion [ZString, ZNumber])),
      (''responsibleUserId'', ZOptional ZString),
      (''totalSecondsEstimate'', ZOptional ZNumber),
      (''pointsEstimate'', ZOptional ZNumber)]"
| "inputSchema GetAllTasks = []"
| "inputSchema AddSubtask =
     [(''taskId'', ZString),
      (''name'', ZString),
      (''finished'', ZOptional ZBoolean),
      (''userId'', ZOptional ZString),
      (''dueDateTimestamp'', ZOptional ZString),
      (''dueDateTimestampLocal'', ZOptional ZString)]"
| "inputSchema UpdateSubtaskByPosition =
     [(''taskId'', ZString),
      (''index'', ZNumber),
      (''name'', ZOptional ZString),
      (''finished'', ZOptional ZBoolean),
      (''userId'', ZOptional ZString),
      (''dueDateTimestamp'', ZOptional ZString),
      (''dueDateTimestampLocal'', ZOptional ZString)]"
| "inputSchema AddLabel =
     [(''taskId'', ZString), (''name'', ZString), (''pinned'', ZOptional ZBoolean)]"
| "inputSchema UpdateLabel =
     [(''taskId'', ZString), (''labelName'', ZString), (''name'', ZOptional ZString),
      (''pinned'', ZOptional ZBoolean)]"
| "inputSchema SetTaskDueDate =
     [(''taskId'', ZString),
      (''dueTimestamp'', ZString),
      (''targetColumnId'', ZString),
      (''dueTimestampLocal'', ZOptional ZString),
      (''dateType'', ZOptional ZString),
      (''status'', ZOptional ZString)]"
| "inputSchema UpdateCustomField =
     [(''taskId'', ZString), (''customFieldId'', ZString), (''textValue'', ZOptional ZString),
      (''numberValue'', ZOptional ZNumber)]"
| "inputSchema AddComment =
     [(''taskId'', ZString), (''text'', ZString), (''authorUserId'', ZOptional ZString),
      (''createdTimestamp'', ZOptional ZString)]"
| "inputSchema UpdateComment =
     [(''taskId'', ZString),
      (''commentId'', ZString),
      (''text'', ZOptional ZString),
      (''authorUserId'', ZOptional ZString),
      (''createdTimestamp'', ZOptional ZString),
      (''updatedTimestamp'', ZOptional ZString)]"
| "inputSchema AddSubtasks = [(''taskId'', ZString), (''subtasks'', ZArray subtask_object)]"
| "inputSchema CreateTaskWithSubtasks =
     [(''name'', ZString),
      (''columnId'', ZString),
      (''description'', ZOptional ZString),
      (''color'', ZOptional color_enum),
      (''position'', ZOptional (ZUnion [ZString, ZNumber])),
      (''subtasks'', ZArray subtask_object)]"

subsection \<open>The destructured arguments of a callback\<close>

text \<open>
  The callback receives the parsed arguments and destructures them. The readers below
  give each argument its declared type; the fallback of a required argument is never
  reached for arguments that the shape accepts.
\<close>

definition arg_opt_str :: "jobj \<Rightarrow> string \<Rightarrow> string option" where
  "arg_opt_str args k = (case get_prop args k of Some (JStr s) \<Rightarrow> Some s | _ \<Rightarrow> None)"

definition arg_opt_num :: "jobj \<Rightarrow> string \<Rightarrow> int option" where
  "arg_opt_num args k = (case get_prop args k of Some (JNum n) \<Rightarrow> Some n | _ \<Rightarrow> None)"

definition arg_opt_bool :: "jobj \<Rightarrow> string \<Rightarrow> bool option" where
  "arg_opt_bool args k = (case get_prop args k of Some (JBool b) \<Rightarrow> Some b | _ \<Rightarrow> None)"

definition arg_opt_str_or_num :: "jobj \<Rightarrow> string \<Rightarrow> str_or_num option" where
  "arg_opt_str_or_num args k =
     (case get_prop args k of Some (JStr s) \<Rightarrow> Some (IsStr s) | Some (JNum n) \<Rightarrow> Some (IsNum n)
      | _ \<Rightarrow> None)"

definition arg_str :: "jobj \<Rightarrow> string \<Rightarrow> string" where
  "arg_str args k = (case arg_opt_str args k of Some s \<Rightarrow> s | None \<Rightarrow> [])"

definition arg_num :: "jobj \<Rightarrow> string \<Rightarrow> int" where
  "arg_num args k = (case arg_opt_num args k of Some n \<Rightarrow> n | None \<Rightarrow> 0)"

definition subtask_of_json :: "jvalue \<Rightarrow> AddSubtaskRequest" where
  "subtask_of_json v =
     (let obj = (case v of JObj obj \<Rightarrow> obj | _ \<Rightarrow> []) in
      \<lparr>asr_name = arg_str obj ''name'',
       asr_finished = arg_opt_bool obj ''finished'',
       asr_userId = arg_opt_str obj ''userId'',
       asr_dueDateTimestamp = arg_opt_str obj ''dueDateTimestamp'',
       asr_dueDateTimestampLocal = arg_opt_str obj ''dueDateTimestampLocal''\<rparr>)"

definition arg_subtasks :: "jobj \<Rightarrow> string \<Rightarrow> AddSubtaskRequest list" where
  "arg_subtasks args k = (case get_prop args k of Some (JArr xs) \<Rightarrow> map subtask_of_json xs | _ \<Rightarrow> [])"

fun callback :: "'s KanbanService \<Rightarrow> tool \<Rightarrow> jobj \<Rightarrow> 's \<Rightarrow> string \<times> 's" where
  "callback svc GetBoard args = get_board svc"
| "callback svc CreateTask args =
     create_task svc (arg_str args ''name'') (arg_str args ''columnId'') (arg_opt_str args ''description'')"
| "callback svc GetTasks args = get_tasks svc (arg_str args ''columnId'')"
| "callback svc GetTaskDetails args =
     get_task_details svc (arg_str args ''taskId'') (arg_opt_bool args ''includePosition'')"
| "callback svc UpdateTask args =
     update_task svc (arg_str args ''taskId'') (arg_opt_str args ''name'') (arg_opt_str args ''columnId'')
       (arg_opt_str args ''description'') (arg_opt_str args ''color'')
       (arg_opt_str_or_num args ''position'') (arg_opt_str args ''responsibleUserId'')
       (arg_opt_num args ''totalSecondsEstimate'') (arg_opt_num args ''pointsEstimate'')"
| "callback svc GetAllTasks args = get_all_tasks svc"
| "callback svc AddSubtask args =
     add_subtask svc (arg_str args ''taskId'') (arg_str args ''name'') (arg_opt_bool args ''finished'')
       (arg_opt_str args ''userId'') (arg_opt_str args ''dueDateTimestamp'')
       (arg_opt_str args ''dueDateTimestampLocal'')"
| "callback svc UpdateSubtaskByPosition args =
     update_subtask_by_position svc (arg_str args ''taskId'') (arg_num args ''index'')
       (arg_opt_str args ''name'') (arg_opt_bool args ''finished'') (arg_opt_str args ''userId'')
       (arg_opt_str args ''dueDateTimestamp'') (arg_opt_str args ''dueDateTimestampLocal'')"
| "callback svc AddLabel args =
     add_label svc (arg_str args ''taskId'') (arg_str args ''name'') (arg_opt_bool args ''pinned'')"
| "callback svc UpdateLabel args =
     update_label svc (arg_str args ''taskId'') (arg_str args ''labelName'') (arg_opt_str args ''name'')
       (arg_opt_bool args ''pinned'')"
| "callback svc SetTaskDueDate args =
     set_task_due_date svc (arg_str args ''taskId'') (arg_str args ''dueTimestamp'')
       (arg_str args ''targetColumnId'') (arg_opt_str args ''dueTimestampLocal'')
       (arg_opt_str args ''dateType'') (arg_opt_str args ''status'')"
| "callback svc UpdateCustomField args =
     update_custom_field svc (arg_str args ''taskId'') (arg_str args ''customFieldId'')
       (arg_opt_str args ''textValue'') (arg_opt_num args ''numberValue'')"
| "callback svc AddComment args =
     add_comment svc (arg_str args ''taskId'') (arg_str args ''text'') (arg_opt_str args ''authorUserId'')
       (arg_opt_str args ''createdTimestamp'')"
| "callback svc UpdateComment args =
     update_comment svc (arg_str args ''taskId'') (arg_str args ''commentId'') (arg_opt_str args ''text'')
       (arg_opt_str args ''authorUserId'') (arg_opt_str args ''createdTimestamp'')
       (arg_opt_str args ''updatedTimestamp'')"
| "callback svc AddSubtasks args =
     add_subtasks svc (arg_str args ''taskId'') (arg_subtasks args ''subtasks'')"
| "callback svc CreateTaskWithSubtasks args =
     create_task_with_subtasks svc (arg_str args ''name'') (arg_str args ''columnId'')
       (arg_opt_str args ''description'') (arg_opt_str args ''color'')
       (arg_opt_str_or_num args ''position'') (arg_subtasks args ''subtasks'')"

text \<open>
  A call of a tool by the host. The server checks the arguments against the registered
  shape before it invokes the callback; arguments that the shape rejects are answered
  by the server with an invalid-parameters error and the callback does not run.
\<close>

datatype call_result = Content string | InvalidParams

definition call_tool :: "'s KanbanService \<Rightarrow> tool \<Rightarrow> jobj \<Rightarrow> 's \<Rightarrow> call_result \<times> 's" where
  "call_tool svc t args s =
     (if validate (inputSchema t) args
      then (case callback svc t args s of (text, s') \<Rightarrow> (Content text, s'))
      else (InvalidParams, s))"

section \<open>The Remote Client (kanban-service.ts)\<close>

text \<open>
  index.ts imports the class \<open>KanbanService\<close> from kanbanflow/kanban-service.ts, which is
  not among the sources: only its interface types (types.ts) and its callers (index.ts)
  are. The client is therefore modelled from the specification, over the endpoints of
  the remote board API, which are a parameter. The client records every request that it
  issues. A value thrown is an error object with a message (\<open>KanbanError\<close>).
\<close>

text \<open>
  Modelled from the spec: the requests that the Remote Client sends to the remote board
  API, one for each endpoint and verb of section 6.
\<close>

datatype request =
    ReadBoard
  | CreateTaskCall CreateTaskRequest
  | ReadTask string
  | UpdateTaskCall string jobj
  | ListByColumn string
  | ListAll
  | AppendSubtask string AddSubtaskRequest
  | ReplaceSubtasks string "Subtask list"
  | AppendLabel string AddLabelRequest
  | ReplaceLabels string "Label list"
  | SetDate string SetTaskDueDateRequest
  | SetCustomField string string UpdateCustomFieldRequest
  | AppendComment string AddCommentRequest
  | UpdateCommentCall string string jobj

text \<open>
  Modelled from the spec: the requests that only read (board, task, list-by-column,
  list-all); every other request writes to the remote service.
\<close>

fun is_write :: "request \<Rightarrow> bool" where
  "is_write ReadBoard = False"
| "is_write (ReadTask _) = False"
| "is_write (ListByColumn _) = False"
| "is_write ListAll = False"
| "is_write _ = True"

text \<open>
  Modelled from the spec: the remote board API, a black-box service with one endpoint
  per resource and verb (section 6): board (read), tasks (create, read, update,
  list-by-column, list-all), subtasks and labels (append one; the whole array is replaced
  on update), dates, custom fields, comments. \<open>'r\<close> is the state of the remote board.
\<close>

record 'r RemoteApi =
  readBoard :: "('r, Board) remote"
  createTaskCall :: "CreateTaskRequest \<Rightarrow> ('r, CreateTaskResponse) remote"
  readTask :: "string \<Rightarrow> bool option \<Rightarrow> ('r, KanbanTask) remote"
  updateTaskCall :: "string \<Rightarrow> jobj \<Rightarrow> ('r, unit) remote"
  listByColumn :: "string \<Rightarrow> ('r, KanbanTask list) remote"
  listAll :: "('r, (Column \<times> KanbanTask list) list) remote"
  appendSubtask :: "string \<Rightarrow> AddSubtaskRequest \<Rightarrow> ('r, AddSubtaskResponse) remote"
  replaceSubtasks :: "string \<Rightarrow> Subtask list \<Rightarrow> ('r, unit) remote"
  appendLabel :: "string \<Rightarrow> AddLabelRequest \<Rightarrow> ('r, AddLabelResponse) remote"
  replaceLabels :: "string \<Rightarrow> Label list \<Rightarrow> ('r, unit) remote"
  setDate :: "string \<Rightarrow> SetTaskDueDateRequest \<Rightarrow> ('r, unit) remote"
  setCustomField :: "string \<Rightarrow> string \<Rightarrow> UpdateCustomFieldRequest \<Rightarrow> ('r, unit) remote"
  appendComment :: "string \<Rightarrow> AddCommentRequest \<Rightarrow> ('r, AddCommentResponse) remote"
  updateCommentCall :: "string \<Rightarrow> string \<Rightarrow> jobj \<Rightarrow> ('r, unit) remote"

text \<open>
  Modelled from the spec: the state behind the Remote Client, which is the state of the remote board and
  the requests issued so far, in order.
\<close>

record 'r client =
  remote_state :: 'r
  issued :: "request list"

text \<open>
  Modelled from the spec: one outbound call of the Remote Client, which "owns all
  outbound calls to the remote board API" (section 4.2); the request is recorded and
  the endpoint's outcome is the outcome of the call.
\<close>

definition issue :: "request \<Rightarrow> ('r, 'a) remote \<Rightarrow> ('r client, 'a) remote" where
  "issue req endpoint = (\<lambda>c. case endpoint (remote_state c) of
       (outcome, r') \<Rightarrow> (outcome, \<lparr>remote_state = r', issued = issued c @ [req]\<rparr>))"

text \<open>
  Modelled from the spec: the operations of KanbanService that "mirror the Tool Registry
  one-to-one" and are a single call of the matching endpoint (section 4.2).
\<close>

definition client_getBoard :: "'r RemoteApi \<Rightarrow> ('r client, Board) remote" where
  "client_getBoard api = issue ReadBoard (readBoard api)"

text \<open>
  Modelled from the spec: create task of KanbanService, a single call of the matching endpoint
  (section 4.2).
\<close>

definition client_createTask :: "'r RemoteApi \<Rightarrow> CreateTaskRequest \<Rightarrow> ('r client, CreateTaskResponse) remote" where
  "client_createTask api req = issue (CreateTaskCall req) (createTaskCall api req)"

text \<open>
  Modelled from the spec: list tasks by column of KanbanService, a single call of the matching
  endpoint (section 4.2).
\<close>

definition client_getTasksByColumnId :: "'r RemoteApi \<Rightarrow> string \<Rightarrow> ('r client, KanbanTask list) remote" where
  "client_getTasksByColumnId api columnId = issue (ListByColumn columnId) (listByColumn api columnId)"

text \<open>
  Modelled from the spec: fetch task detail of KanbanService, a single call of the matching endpoint
  (section 4.2).
\<close>

definition client_getTaskDetails :: "'r RemoteApi \<Rightarrow> string \<Rightarrow> bool option \<Rightarrow> ('r client, KanbanTask) remote" where
  "client_getTaskDetails api taskId includePosition =
     issue (ReadTask taskId) (readTask api taskId includePosition)"

text \<open>
  Modelled from the spec: update task of KanbanService, a single call of the matching endpoint with the
  sparse update (section 4.2).
\<close>

definition client_updateTask :: "'r RemoteApi \<Rightarrow> string \<Rightarrow> jobj \<Rightarrow> ('r client, unit) remote" where
  "client_updateTask api taskId updates = issue (UpdateTaskCall taskId updates) (updateTaskCall api taskId updates)"

text \<open>
  Modelled from the spec: add subtask of KanbanService, a single call of the matching endpoint
  (section 4.2).
\<close>

definition client_addSubtask ::
  "'r RemoteApi \<Rightarrow> string \<Rightarrow> AddSubtaskRequest \<Rightarrow> ('r client, AddSubtaskResponse) remote" where
  "client_addSubtask api taskId subtask = issue (AppendSubtask taskId subtask) (appendSubtask api taskId subtask)"

text \<open>
  Modelled from the spec: add label of KanbanService, a single call of the matching endpoint
  (section 4.2).
\<close>

definition client_addLabel ::
  "'r RemoteApi \<Rightarrow> string \<Rightarrow> AddLabelRequest \<Rightarrow> ('r client, AddLabelResponse) remote" where
  "client_addLabel api taskId label = issue (AppendLabel taskId label) (appendLabel api taskId label)"

text \<open>
  Modelled from the spec: set due date of KanbanService, a single call of the matching endpoint
  (section 4.2).
\<close>

definition client_setTaskDueDate ::
  "'r RemoteApi \<Rightarrow> string \<Rightarrow> SetTaskDueDateRequest \<Rightarrow> ('r client, unit) remote" where
  "client_setTaskDueDate api taskId dateInfo = issue (SetDate taskId dateInfo) (setDate api taskId dateInfo)"

text \<open>
  Modelled from the spec: update custom field of KanbanService, a single call of the matching
  endpoint (section 4.2).
\<close>

definition client_updateCustomField ::
  "'r RemoteApi \<Rightarrow> string \<Rightarrow> string \<Rightarrow> UpdateCustomFieldRequest \<Rightarrow> ('r client, unit) remote" where
  "client_updateCustomField api taskId customFieldId req =
     issue (SetCustomField taskId customFieldId req) (setCustomField api taskId customFieldId req)"

text \<open>
  Modelled from the spec: add comment of KanbanService, a single call of the matching endpoint
  (section 4.2).
\<close>

definition client_addComment ::
  "'r RemoteApi \<Rightarrow> string \<Rightarrow> AddCommentRequest \<Rightarrow> ('r client, AddCommentResponse) remote" where
  "client_addComment api taskId comment = issue (AppendComment taskId comment) (appendComment api taskId comment)"

text \<open>
  Modelled from the spec: update comment of KanbanService, a single call of the matching endpoint
  with the sparse update (section 4.2).
\<close>

definition client_updateComment :: "'r RemoteApi \<Rightarrow> string \<Rightarrow> string \<Rightarrow> jobj \<Rightarrow> ('r client, unit) remote" where
  "client_updateComment api taskId commentId updates =
     issue (UpdateCommentCall taskId commentId updates) (updateCommentCall api taskId commentId updates)"

text \<open>
  Modelled from the spec: list-all of KanbanService. "get-all-tasks must cap each
  column's returned task list at 20 and flag truncation" (section 4.1): a column keeps
  its first 20 tasks and is flagged when it had more.
\<close>

definition limit_column :: "Column \<times> KanbanTask list \<Rightarrow> KanbanAllTasksResponse" where
  "limit_column = (\<lambda>(column, tasks).
     \<lparr>kat_columnId = col_uniqueId column, kat_columnName = col_name column,
      kat_tasksLimited = (length tasks > 20), kat_tasks = take 20 tasks\<rparr>)"

text \<open>
  Modelled from the spec: list-all of KanbanService: one call of the list-all endpoint, each column
  returned capped and flagged (section 4.1).
\<close>

definition client_getAllTasks :: "'r RemoteApi \<Rightarrow> ('r client, KanbanAllTasksResponse list) remote" where
  "client_getAllTasks api = await (issue ListAll (listAll api)) (\<lambda>columns. returns (map limit_column columns))"

text \<open>
  Modelled from the spec: the partial update of one subtask and of one label. The
  fields present in the sparse update replace the element's fields; the others stay.
\<close>

definition patch_subtask :: "jobj \<Rightarrow> Subtask \<Rightarrow> Subtask" where
  "patch_subtask updates subtask =
     \<lparr>sub_name = (case get_prop updates ''name'' of Some (JStr v) \<Rightarrow> Some v | _ \<Rightarrow> sub_name subtask),
      sub_finished = (case get_prop updates ''finished'' of Some (JBool v) \<Rightarrow> Some v | _ \<Rightarrow> sub_finished subtask),
      sub_userId = (case get_prop updates ''userId'' of Some (JStr v) \<Rightarrow> Some v | _ \<Rightarrow> sub_userId subtask),
      sub_dueDateTimestamp =
        (case get_prop updates ''dueDateTimestamp'' of Some (JStr v) \<Rightarrow> Some v
         | _ \<Rightarrow> sub_dueDateTimestamp subtask),
      sub_dueDateTimestampLocal =
        (case get_prop updates ''dueDateTimestampLocal'' of Some (JStr v) \<Rightarrow> Some v
         | _ \<Rightarrow> sub_dueDateTimestampLocal subtask)\<rparr>"

text \<open>
  Modelled from the spec: the partial update of one label: the fields present in the sparse update
  replace the label's fields; the others stay.
\<close>

definition patch_label :: "jobj \<Rightarrow> Label \<Rightarrow> Label" where
  "patch_label updates label =
     \<lparr>lab_name = (case get_prop updates ''name'' of Some (JStr v) \<Rightarrow> v | _ \<Rightarrow> lab_name label),
      lab_pinned = (case get_prop updates ''pinned'' of Some (JBool v) \<Rightarrow> Some v | _ \<Rightarrow> lab_pinned label)\<rparr>"

text \<open>
  Modelled from the spec: the logical errors that the client raises itself, "out-of-range
  subtask index, no label matching the given name" (section 7), with descriptive
  messages that name the index and the subtask count, and the label searched for.
\<close>

definition out_of_range_error :: "int \<Rightarrow> nat \<Rightarrow> KanbanError" where
  "out_of_range_error index count =
     \<lparr>message = ''Subtask index '' @ show_int index @ '' is out of range (task has '' @
                 show_nat count @ '' subtasks)'',
      err_status = None\<rparr>"

text \<open>
  Modelled from the spec: the logical error "no label matching the given name" (section 7),
  with a descriptive message that names the label searched for.
\<close>

definition label_not_found_error :: "string \<Rightarrow> KanbanError" where
  "label_not_found_error labelName =
     \<lparr>message = ''Label \"'' @ labelName @ ''\" not found on task'', err_status = None\<rparr>"

text \<open>
  Modelled from the spec: position-addressed subtask update. "First fetching the current
  task, validating the index against the current subtask count, applying the partial
  update to that one element of the array, and submitting the entire modified array
  back" (section 4.2); an index out of range fails with the logical error before any
  write.
\<close>

definition client_updateSubtaskByPosition ::
  "'r RemoteApi \<Rightarrow> string \<Rightarrow> int \<Rightarrow> jobj \<Rightarrow> ('r client, unit) remote" where
  "client_updateSubtaskByPosition api taskId index updates =
     await (client_getTaskDetails api taskId None) (\<lambda>task.
       let subTasks = (case task_subTasks task of None \<Rightarrow> [] | Some xs \<Rightarrow> xs) in
       if index < 0 \<or> int (length subTasks) \<le> index
       then throws (out_of_range_error index (length subTasks))
       else (let modified = subTasks[nat index := patch_subtask updates (subTasks ! nat index)]
             in issue (ReplaceSubtasks taskId modified) (replaceSubtasks api taskId modified)))"

text \<open>
  Modelled from the spec: name-addressed label update. "Fetch current task, find the
  first label whose name equals the given name, apply partial update to that element,
  replace the full label array" (section 4.2); no match fails with the logical error
  before any write.
\<close>

fun first_index :: "('a \<Rightarrow> bool) \<Rightarrow> 'a list \<Rightarrow> nat option" where
  "first_index P [] = None"
| "first_index P (x # xs) = (if P x then Some 0 else map_option Suc (first_index P xs))"

text \<open>
  Modelled from the spec: name-addressed label update of KanbanService (section 4.2), with the
  first match of the exact name; see above.
\<close>

definition client_updateLabel ::
  "'r RemoteApi \<Rightarrow> string \<Rightarrow> string \<Rightarrow> jobj \<Rightarrow> ('r client, unit) remote" where
  "client_updateLabel api taskId labelName updates =
     await (client_getTaskDetails api taskId None) (\<lambda>task.
       let labels = (case task_labels task of None \<Rightarrow> [] | Some xs \<Rightarrow> xs) in
       case first_index (\<lambda>label. lab_name label = labelName) labels of
         None \<Rightarrow> throws (label_not_found_error labelName)
       | Some i \<Rightarrow>
           (let modified = labels[i := patch_label updates (labels ! i)]
            in issue (ReplaceLabels taskId modified) (replaceLabels api taskId modified)))"

text \<open>
  Modelled from the spec: sequential append, used by the bulk subtask add and by the
  composite creation. "Issue one subtask-add call per subtask in the order supplied,
  collecting each insertion index"; a failure stops the sequence and nothing is rolled
  back (section 4.2).
\<close>

fun add_in_order ::
  "'r RemoteApi \<Rightarrow> string \<Rightarrow> AddSubtaskRequest list \<Rightarrow> ('r client, AddedSubtask list) remote" where
  "add_in_order api taskId [] = returns []"
| "add_in_order api taskId (subtask # rest) =
     await (client_addSubtask api taskId subtask) (\<lambda>result.
     await (add_in_order api taskId rest) (\<lambda>added.
       returns (\<lparr>as_name = asr_name subtask, as_insertIndex = ares_insertIndex result\<rparr> # added)))"

text \<open>
  Modelled from the spec: bulk subtask add of KanbanService, "same sequential-append strategy
  without an owning task-creation step" (section 4.2).
\<close>

definition client_addMultipleSubtasks ::
  "'r RemoteApi \<Rightarrow> string \<Rightarrow> AddSubtasksRequest \<Rightarrow> ('r client, AddSubtasksResponse) remote" where
  "client_addMultipleSubtasks api taskId req =
     await (add_in_order api taskId (asq_subtasks req)) (\<lambda>added.
       returns \<lparr>asres_addedSubtasks = added, asres_totalAdded = int (length added)\<rparr>)"

text \<open>
  Modelled from the spec: composite task and subtasks creation. "Create the task, then
  issue one subtask-add call per subtask in the order supplied, collecting each
  insertion index" (section 4.2).
\<close>

definition task_request :: "CreateTaskWithSubtasksRequest \<Rightarrow> CreateTaskRequest" where
  "task_request req =
     \<lparr>ctr_name = cws_name req, ctr_columnId = cws_columnId req, ctr_swimlaneId = None,
      ctr_position = cws_position req, ctr_color = cws_color req,
      ctr_description = cws_description req, ctr_totalSecondsEstimate = None,
      ctr_pointsEstimate = None\<rparr>"

text \<open>
  Modelled from the spec: composite creation of KanbanService (section 4.2): the task is
  created, then the subtasks are added in order; the response carries the collected
  insertion indices and their number.
\<close>

definition client_createTaskWithSubtasks ::
  "'r RemoteApi \<Rightarrow> CreateTaskWithSubtasksRequest \<Rightarrow> ('r client, CreateTaskWithSubtasksResponse) remote" where
  "client_createTaskWithSubtasks api req =
     await (client_createTask api (task_request req)) (\<lambda>created.
     await (add_in_order api (cres_taskId created) (cws_subtasks req)) (\<lambda>added.
       returns \<lparr>cwres_taskId = cres_taskId created, cwres_taskName = cws_name req,
                cwres_addedSubtasks = added, cwres_totalSubtasks = int (length added)\<rparr>))"

text \<open>Modelled from the spec: the KanbanService object that index.ts constructs.\<close>

definition kanbanService :: "'r RemoteApi \<Rightarrow> 'r client KanbanService" where
  "kanbanService api =
     \<lparr>getBoard = client_getBoard api,
      createTask = client_createTask api,
      getTasksByColumnId = client_getTasksByColumnId api,
      getTaskDetails = client_getTaskDetails api,
      updateTask = client_updateTask api,
      getAllTasks = client_getAllTasks api,
      addSubtask = client_addSubtask api,
      updateSubtaskByPosition = client_updateSubtaskByPosition api,
      addLabel = client_addLabel api,
      updateLabel = client_updateLabel api,
      setTaskDueDate = client_setTaskDueDate api,
      updateCustomField = client_updateCustomField api,
      addComment = client_addComment api,
      updateComment = client_updateComment api,
      addMultipleSubtasks = client_addMultipleSubtasks api,
      createTaskWithSubtasks = client_createTaskWithSubtasks api\<rparr>"

section \<open>The setup wizard (index.ts, \<open>--setup\<close> / \<open>--init\<close>)\<close>














section \<open>An in-memory board\<close>

text \<open>
  A remote board held in memory, on which the theorems below are exercised: tasks in
  board order, each in a column. Endpoints that no example calls answer with an error.
\<close>

record memory =
  mem_columns :: "Column list"
  mem_tasks :: "KanbanTask list"

definition plain_task :: "string \<Rightarrow> string \<Rightarrow> string \<Rightarrow> KanbanTask" where
  "plain_task ident name columnId =
     \<lparr>task_id = ident, task_name = name, task_columnId = columnId, task_swimlaneId = None,
      task_position = None, task_description = None, task_color = None, task_number = None,
      task_responsibleUserId = None, task_totalSecondsSpent = None,
      task_totalSecondsEstimate = None, task_pointsEstimate = None, task_groupingDate = None,
      task_dates = None, task_subTasks = None, task_labels = None, task_customFields = None,
      task_relations = None\<rparr>"

definition not_found :: KanbanError where
  "not_found = \<lparr>message = ''Task not found'', err_status = Some 404\<rparr>"

definition not_supported :: KanbanError where
  "not_supported = \<lparr>message = ''Not supported'', err_status = Some 501\<rparr>"

definition on_task :: "string \<Rightarrow> (KanbanTask \<Rightarrow> 'a \<times> KanbanTask) \<Rightarrow> (memory, 'a) remote" where
  "on_task taskId f = (\<lambda>m.
     case find (\<lambda>t. task_id t = taskId) (mem_tasks m) of
       None \<Rightarrow> (Inl not_found, m)
     | Some t \<Rightarrow> (Inr (fst (f t)),
                  m\<lparr>mem_tasks := map (\<lambda>u. if task_id u = taskId then snd (f u) else u) (mem_tasks m)\<rparr>))"

definition subtask_of_request :: "AddSubtaskRequest \<Rightarrow> Subtask" where
  "subtask_of_request req =
     \<lparr>sub_name = Some (asr_name req), sub_finished = asr_finished req, sub_userId = asr_userId req,
      sub_dueDateTimestamp = asr_dueDateTimestamp req,
      sub_dueDateTimestampLocal = asr_dueDateTimestampLocal req\<rparr>"

definition apply_task_updates :: "jobj \<Rightarrow> KanbanTask \<Rightarrow> KanbanTask" where
  "apply_task_updates updates t =
     t\<lparr>task_name := (case get_prop updates ''name'' of Some (JStr v) \<Rightarrow> v | _ \<Rightarrow> task_name t),
       task_columnId := (case get_prop updates ''columnId'' of Some (JStr v) \<Rightarrow> v | _ \<Rightarrow> task_columnId t),
       task_description :=
         (case get_prop updates ''description'' of Some (JStr v) \<Rightarrow> Some v | _ \<Rightarrow> task_description t),
       task_color := (case get_prop updates ''color'' of Some (JStr v) \<Rightarrow> Some v | _ \<Rightarrow> task_color t),
       task_position := (case get_prop updates ''position'' of Some (JNum n) \<Rightarrow> Some n | _ \<Rightarrow> task_position t),
       task_responsibleUserId :=
         (case get_prop updates ''responsibleUserId'' of Some (JStr v) \<Rightarrow> Some v
          | _ \<Rightarrow> task_responsibleUserId t),
       task_totalSecondsEstimate :=
         (case get_prop updates ''totalSecondsEstimate'' of Some (JNum n) \<Rightarrow> Some n
          | _ \<Rightarrow> task_totalSecondsEstimate t),
       task_pointsEstimate :=
         (case get_prop updates ''pointsEstimate'' of Some (JNum n) \<Rightarrow> Some n
          | _ \<Rightarrow> task_pointsEstimate t)\<rparr>"

definition memory_api :: "memory RemoteApi" where
  "memory_api =
     \<lparr>readBoard = (\<lambda>m. (Inr \<lparr>board_id = ''board-1'', board_name = ''Board'',
                              board_columns = mem_columns m, board_swimlanes = None,
                              board_colors = None\<rparr>, m)),
      createTaskCall = (\<lambda>req m.
        let ident = ''task-'' @ show_nat (length (mem_tasks m) + 1) in
        (Inr \<lparr>cres_taskId = ident\<rparr>,
         m\<lparr>mem_tasks := mem_tasks m @
              [(plain_task ident (ctr_name req) (ctr_columnId req))
                 \<lparr>task_description := ctr_description req, task_color := ctr_color req\<rparr>]\<rparr>)),
      readTask = (\<lambda>taskId includePosition. on_task taskId (\<lambda>t. (t, t))),
      updateTaskCall = (\<lambda>taskId updates. on_task taskId (\<lambda>t. ((), apply_task_updates updates t))),
      listByColumn = (\<lambda>columnId m. (Inr (filter (\<lambda>t. task_columnId t = columnId) (mem_tasks m)), m)),
      listAll = (\<lambda>m. (Inr (map (\<lambda>c. (c, filter (\<lambda>t. task_columnId t = col_uniqueId c) (mem_tasks m)))
                              (mem_columns m)), m)),
      appendSubtask = (\<lambda>taskId req. on_task taskId (\<lambda>t.
        let subs = (case task_subTasks t of None \<Rightarrow> [] | Some xs \<Rightarrow> xs) in
        (\<lparr>ares_insertIndex = int (length subs)\<rparr>,
         t\<lparr>task_subTasks := Some (subs @ [subtask_of_request req])\<rparr>))),
      replaceSubtasks = (\<lambda>taskId subs. on_task taskId (\<lambda>t. ((), t\<lparr>task_subTasks := Some subs\<rparr>))),
      appendLabel = (\<lambda>taskId req. on_task taskId (\<lambda>t.
        let labels = (case task_labels t of None \<Rightarrow> [] | Some xs \<Rightarrow> xs) in
        (\<lparr>lres_insertIndex = int (length labels)\<rparr>,
         t\<lparr>task_labels := Some (labels @ [\<lparr>lab_name = alr_name req, lab_pinned = alr_pinned req\<rparr>])\<rparr>))),
      replaceLabels = (\<lambda>taskId labels. on_task taskId (\<lambda>t. ((), t\<lparr>task_labels := Some labels\<rparr>))),
      setDate = (\<lambda>taskId dateInfo. throws not_supported),
      setCustomField = (\<lambda>taskId customFieldId req. throws not_supported),
      appendComment = (\<lambda>taskId comment. throws not_supported),
      updateCommentCall = (\<lambda>taskId commentId updates. throws not_supported)\<rparr>"

definition fresh_client :: "memory \<Rightarrow> memory client" where
  "fresh_client m = \<lparr>remote_state = m, issued = []\<rparr>"

text \<open>A board with one task at position 0, with two subtasks and three labels.\<close>

definition demo_task :: KanbanTask where
  "demo_task =
     (plain_task ''task-1'' ''Write report'' ''col-1'')
       \<lparr>task_position := Some 0,
        task_subTasks := Some
          [\<lparr>sub_name = Some ''outline'', sub_finished = Some True, sub_userId = None,
            sub_dueDateTimestamp = None, sub_dueDateTimestampLocal = None\<rparr>,
           \<lparr>sub_name = Some ''draft'', sub_finished = None, sub_userId = None,
            sub_dueDateTimestamp = None, sub_dueDateTimestampLocal = None\<rparr>],
        task_labels := Some
          [\<lparr>lab_name = ''urgent'', lab_pinned = None\<rparr>,
           \<lparr>lab_name = ''docs'', lab_pinned = None\<rparr>,
           \<lparr>lab_name = ''urgent'', lab_pinned = Some True\<rparr>]\<rparr>"

definition demo_memory :: memory where
  "demo_memory =
     \<lparr>mem_columns = [\<lparr>col_name = ''To do'', col_uniqueId = ''col-1''\<rparr>],
      mem_tasks = [demo_task]\<rparr>"



text \<open>A composite creation: the task \<open>Release\<close> with the subtasks \<open>a\<close> and \<open>b\<close>.\<close>

definition named_subtask :: "string \<Rightarrow> AddSubtaskRequest" where
  "named_subtask name =
     \<lparr>asr_name = name, asr_finished = None, asr_userId = None, asr_dueDateTimestamp = None,
      asr_dueDateTimestampLocal = None\<rparr>"

definition release_task :: KanbanTask where
  "release_task =
     (plain_task ''task-2'' ''Release'' ''col-1'')
       \<lparr>task_subTasks := Some [subtask_of_request (named_subtask ''a''),
                               subtask_of_request (named_subtask ''b'')]\<rparr>"

definition release_request :: CreateTaskWithSubtasksRequest where
  "release_request =
     \<lparr>cws_name = ''Release'', cws_columnId = ''col-1'', cws_description = None, cws_color = None,
      cws_position = None, cws_subtasks = [named_subtask ''a'', named_subtask ''b'']\<rparr>"

text \<open>The in-memory board with a remote service that refuses the subtask \<open>b\<close>.\<close>

definition flaky_api :: "memory RemoteApi" where
  "flaky_api =
     memory_api\<lparr>appendSubtask := (\<lambda>taskId req.
        if asr_name req = ''b'' then throws not_supported else appendSubtask memory_api taskId req)\<rparr>"






section \<open>Notions used to state the properties\<close>

text \<open>
  The fields that a call supplies, in the order of declaration: the pairs of a key and
  a value, without the keys whose value is absent.
\<close>

definition supplied :: "(string \<times> jvalue option) list \<Rightarrow> jobj" where
  "supplied entries = List.map_filter (\<lambda>(k, v). map_option (Pair k) v) entries"

text \<open>A piece of a narrative that is a Position line.\<close>

definition is_position_line :: "string \<Rightarrow> bool" where
  "is_position_line piece = (take 12 piece = ''- Position: '')"

text \<open>The ten colours of the specification's enumeration.\<close>

definition color_values :: "string list" where
  "color_values = [''yellow'', ''white'', ''red'', ''green'', ''blue'', ''purple'', ''orange'',
                   ''cyan'', ''brown'', ''magenta'']"

text \<open>The verb of each tool in its failure message, \<open>Failed to <verb>: <reason>\<close>.\<close>

fun verb :: "tool \<Rightarrow> string" where
  "verb GetBoard = ''get board''"
| "verb CreateTask = ''create task''"
| "verb GetTasks = ''get tasks''"
| "verb GetTaskDetails = ''get task details''"
| "verb UpdateTask = ''update task''"
| "verb GetAllTasks = ''get all tasks''"
| "verb AddSubtask = ''add subtask''"
| "verb UpdateSubtaskByPosition = ''update subtask''"
| "verb AddLabel = ''add label''"
| "verb UpdateLabel = ''update label''"
| "verb SetTaskDueDate = ''set due date''"
| "verb UpdateCustomField = ''update custom field''"
| "verb AddComment = ''add comment''"
| "verb UpdateComment = ''update comment''"
| "verb AddSubtasks = ''add subtasks''"
| "verb CreateTaskWithSubtasks = ''create task with subtasks''"

text \<open>The try block that a call of a tool runs, on the arguments as the callback reads them.\<close>

fun try_block :: "'s KanbanService \<Rightarrow> tool \<Rightarrow> jobj \<Rightarrow> ('s, string) remote" where
  "try_block svc GetBoard args = get_board_try svc"
| "try_block svc CreateTask args =
     create_task_try svc (arg_str args ''name'') (arg_str args ''columnId'') (arg_opt_str args ''description'')"
| "try_block svc GetTasks args = get_tasks_try svc (arg_str args ''columnId'')"
| "try_block svc GetTaskDetails args =
     get_task_details_try svc (arg_str args ''taskId'') (arg_opt_bool args ''includePosition'')"
| "try_block svc UpdateTask args =
     update_task_try svc (arg_str args ''taskId'') (arg_opt_str args ''name'') (arg_opt_str args ''columnId'')
       (arg_opt_str args ''description'') (arg_opt_str args ''color'')
       (arg_opt_str_or_num args ''position'') (arg_opt_str args ''responsibleUserId'')
       (arg_opt_num args ''totalSecondsEstimate'') (arg_opt_num args ''pointsEstimate'')"
| "try_block svc GetAllTasks args = get_all_tasks_try svc"
| "try_block svc AddSubtask args =
     add_subtask_try svc (arg_str args ''taskId'') (arg_str args ''name'') (arg_opt_bool args ''finished'')
       (arg_opt_str args ''userId'') (arg_opt_str args ''dueDateTimestamp'')
       (arg_opt_str args ''dueDateTimestampLocal'')"
| "try_block svc UpdateSubtaskByPosition args =
     update_subtask_by_position_try svc (arg_str args ''taskId'') (arg_num args ''index'')
       (arg_opt_str args ''name'') (arg_opt_bool args ''finished'') (arg_opt_str args ''userId'')
       (arg_opt_str args ''dueDateTimestamp'') (arg_opt_str args ''dueDateTimestampLocal'')"
| "try_block svc AddLabel args =
     add_label_try svc (arg_str args ''taskId'') (arg_str args ''name'') (arg_opt_bool args ''pinned'')"
| "try_block svc UpdateLabel args =
     update_label_try svc (arg_str args ''taskId'') (arg_str args ''labelName'') (arg_opt_str args ''name'')
       (arg_opt_bool args ''pinned'')"
| "try_block svc SetTaskDueDate args =
     set_task_due_date_try svc (arg_str args ''taskId'') (arg_str args ''dueTimestamp'')
       (arg_str args ''targetColumnId'') (arg_opt_str args ''dueTimestampLocal'')
       (arg_opt_str args ''dateType'') (arg_opt_str args ''status'')"
| "try_block svc UpdateCustomField args =
     update_custom_field_try svc (arg_str args ''taskId'') (arg_str args ''customFieldId'')
       (arg_opt_str args ''textValue'') (arg_opt_num args ''numberValue'')"
| "try_block svc AddComment args =
     add_comment_try svc (arg_str args ''taskId'') (arg_str args ''text'') (arg_opt_str args ''authorUserId'')
       (arg_opt_str args ''createdTimestamp'')"
| "try_block svc UpdateComment args =
     update_comment_try svc (arg_str args ''taskId'') (arg_str args ''commentId'') (arg_opt_str args ''text'')
       (arg_opt_str args ''authorUserId'') (arg_opt_str args ''createdTimestamp'')
       (arg_opt_str args ''updatedTimestamp'')"
| "try_block svc AddSubtasks args =
     add_subtasks_try svc (arg_str args ''taskId'') (arg_subtasks args ''subtasks'')"
| "try_block svc CreateTaskWithSubtasks args =
     create_task_with_subtasks_try svc (arg_str args ''name'') (arg_str args ''columnId'')
       (arg_opt_str args ''description'') (arg_opt_str args ''color'')
       (arg_opt_str_or_num args ''position'') (arg_subtasks args ''subtasks'')"

text \<open>The subtasks and the labels that a task currently has (none when the field is absent).\<close>

definition current_subtasks :: "KanbanTask \<Rightarrow> Subtask list" where
  "current_subtasks task = (case task_subTasks task of None \<Rightarrow> [] | Some xs \<Rightarrow> xs)"

definition current_labels :: "KanbanTask \<Rightarrow> Label list" where
  "current_labels task = (case task_labels task of None \<Rightarrow> [] | Some xs \<Rightarrow> xs)"


section \<open>Properties\<close>

subsection \<open>Sparse update payloads\<close>

lemma set_prop_fresh: "k \<notin> fst ` set obj \<Longrightarrow> set_prop k v obj = obj @ [(k, v)]"
  unfolding set_prop_def by (induction obj) auto

lemma supplied_keys: "fst ` set (supplied entries) \<subseteq> fst ` set entries"
  unfolding supplied_def by (induction entries) (auto simp: map_filter_simps split: option.splits)

lemma supplied_snoc:
  "supplied (entries @ [(k, v)]) = supplied entries @ (case v of None \<Rightarrow> [] | Some x \<Rightarrow> [(k, x)])"
  unfolding supplied_def by (induction entries) (auto simp: map_filter_simps split: option.splits)

lemma assign_supplied:
  assumes "k \<notin> fst ` set entries"
  shows "assign_if_defined k conv v (supplied entries) = supplied (entries @ [(k, map_option conv v)])"
proof -
  have "k \<notin> fst ` set (supplied entries)"
    using assms supplied_keys by blast
  then show ?thesis
    by (cases v) (simp_all add: assign_if_defined_def supplied_snoc set_prop_fresh)
qed

lemma supplied_Nil: "[] = supplied []"
  by (simp add: supplied_def map_filter_simps)

lemma update_task_updates_supplied:
  "update_task_updates name columnId description color position responsibleUserId
     totalSecondsEstimate pointsEstimate =
   supplied [(''name'', map_option JStr name), (''columnId'', map_option JStr columnId),
             (''description'', map_option JStr description), (''color'', map_option JStr color),
             (''position'', map_option str_or_num_json position),
             (''responsibleUserId'', map_option JStr responsibleUserId),
             (''totalSecondsEstimate'', map_option JNum totalSecondsEstimate),
             (''pointsEstimate'', map_option JNum pointsEstimate)]"
  unfolding update_task_updates_def
  by (subst supplied_Nil) (simp add: assign_supplied)

lemma update_subtask_updates_supplied:
  "update_subtask_updates name finished userId dueDateTimestamp dueDateTimestampLocal =
   supplied [(''name'', map_option JStr name), (''finished'', map_option JBool finished),
             (''userId'', map_option JStr userId),
             (''dueDateTimestamp'', map_option JStr dueDateTimestamp),
             (''dueDateTimestampLocal'', map_option JStr dueDateTimestampLocal)]"
  unfolding update_subtask_updates_def
  by (subst supplied_Nil) (simp add: assign_supplied)

lemma update_label_updates_supplied:
  "update_label_updates name pinned =
   supplied [(''name'', map_option JStr name), (''pinned'', map_option JBool pinned)]"
  unfolding update_label_updates_def
  by (subst supplied_Nil) (simp add: assign_supplied)

lemma update_comment_updates_supplied:
  "update_comment_updates text authorUserId createdTimestamp updatedTimestamp =
   supplied [(''text'', map_option JStr text), (''authorUserId'', map_option JStr authorUserId),
             (''createdTimestamp'', map_option JStr createdTimestamp),
             (''updatedTimestamp'', map_option JStr updatedTimestamp)]"
  unfolding update_comment_updates_def
  by (subst supplied_Nil) (simp add: assign_supplied)

lemma update_tools_pass_their_updates:
  "\<exists>rest. update_task_try svc taskId name columnId description color position responsibleUserId
            totalSecondsEstimate pointsEstimate =
          await (updateTask svc taskId
                   (update_task_updates name columnId description color position responsibleUserId
                      totalSecondsEstimate pointsEstimate)) rest"
  "\<exists>rest. update_subtask_by_position_try svc taskId index subtaskName finished userId dueDateTimestamp
            dueDateTimestampLocal =
          await (updateSubtaskByPosition svc taskId index
                   (update_subtask_updates subtaskName finished userId dueDateTimestamp
                      dueDateTimestampLocal)) rest"
  "\<exists>rest. update_label_try svc taskId labelName labelNewName pinned =
          await (updateLabel svc taskId labelName (update_label_updates labelNewName pinned)) rest"
  "\<exists>rest. update_comment_try svc taskId commentId commentText authorUserId createdTimestamp
            updatedTimestamp =
          await (updateComment svc taskId commentId
                   (update_comment_updates commentText authorUserId createdTimestamp updatedTimestamp))
            rest"
  unfolding update_task_try_def update_subtask_by_position_try_def update_label_try_def
    update_comment_try_def Let_def
  by (rule refl exI)+

text \<open>
  C2. For every subset of optional arguments supplied to update-task,
  update-subtask-by-position, update-label and update-comment, the try block of the tool
  begins by calling the update method of the Remote Client with a payload that consists
  of exactly the supplied fields, each with the supplied value: an omitted field is not
  a key of the payload.
\<close>

theorem update_payload_has_exactly_supplied_fields:
  "(\<exists>rest. update_task_try svc taskId name columnId description color position responsibleUserId
             totalSecondsEstimate pointsEstimate =
           await (updateTask svc taskId
                    (supplied [(''name'', map_option JStr name), (''columnId'', map_option JStr columnId),
                               (''description'', map_option JStr description),
                               (''color'', map_option JStr color),
                               (''position'', map_option str_or_num_json position),
                               (''responsibleUserId'', map_option JStr responsibleUserId),
                               (''totalSecondsEstimate'', map_option JNum totalSecondsEstimate),
                               (''pointsEstimate'', map_option JNum pointsEstimate)])) rest)
   \<and> (\<exists>rest. update_subtask_by_position_try svc taskId index subtaskName finished userId
             dueDateTimestamp dueDateTimestampLocal =
           await (updateSubtaskByPosition svc taskId index
                    (supplied [(''name'', map_option JStr subtaskName),
                               (''finished'', map_option JBool finished),
                               (''userId'', map_option JStr userId),
                               (''dueDateTimestamp'', map_option JStr dueDateTimestamp),
                               (''dueDateTimestampLocal'', map_option JStr dueDateTimestampLocal)])) rest)
   \<and> (\<exists>rest. update_label_try svc taskId labelName labelNewName pinned =
           await (updateLabel svc taskId labelName
                    (supplied [(''name'', map_option JStr labelNewName),
                               (''pinned'', map_option JBool pinned)])) rest)
   \<and> (\<exists>rest. update_comment_try svc taskId commentId commentText authorUserId createdTimestamp
             updatedTimestamp =
           await (updateComment svc taskId commentId
                    (supplied [(''text'', map_option JStr commentText),
                               (''authorUserId'', map_option JStr authorUserId),
                               (''createdTimestamp'', map_option JStr createdTimestamp),
                               (''updatedTimestamp'', map_option JStr updatedTimestamp)])) rest)"
  unfolding update_task_updates_supplied [symmetric] update_subtask_updates_supplied [symmetric]
    update_label_updates_supplied [symmetric] update_comment_updates_supplied [symmetric]
  by (intro conjI update_tools_pass_their_updates)

theorem update_payload_example:
  "(\<exists>rest. update_task_try (kanbanService memory_api) ''task-1'' (Some ''Ship it'') None None
             (Some ''red'') (Some (IsNum 0)) None None None =
           await (updateTask (kanbanService memory_api) ''task-1''
                    [(''name'', JStr ''Ship it''), (''color'', JStr ''red''), (''position'', JNum 0)]) rest)
   \<and> (\<exists>rest. update_subtask_by_position_try (kanbanService memory_api) ''task-1'' 1 None (Some True)
             None None None =
           await (updateSubtaskByPosition (kanbanService memory_api) ''task-1'' 1
                    [(''finished'', JBool True)]) rest)
   \<and> (\<exists>rest. update_label_try (kanbanService memory_api) ''task-1'' ''urgent'' None None =
           await (updateLabel (kanbanService memory_api) ''task-1'' ''urgent'' []) rest)
   \<and> (\<exists>rest. update_comment_try (kanbanService memory_api) ''task-1'' ''comment-1'' (Some ''done'')
             None None None =
           await (updateComment (kanbanService memory_api) ''task-1'' ''comment-1''
                    [(''text'', JStr ''done'')]) rest)"
  using update_payload_has_exactly_supplied_fields
          [where svc = "kanbanService memory_api" and taskId = "''task-1''"
             and name = "Some ''Ship it''" and columnId = None and description = None
             and color = "Some ''red''" and position = "Some (IsNum 0)"
             and responsibleUserId = None and totalSecondsEstimate = None and pointsEstimate = None
             and index = 1 and subtaskName = None and finished = "Some True" and userId = None
             and dueDateTimestamp = None and dueDateTimestampLocal = None
             and labelName = "''urgent''" and labelNewName = None and pinned = None
             and commentId = "''comment-1''" and commentText = "Some ''done''" and authorUserId = None
             and createdTimestamp = None and updatedTimestamp = None]
  by (simp add: supplied_def)

subsection \<open>The Position line\<close>

lemma not_position_first: "a \<noteq> CHR ''-'' \<Longrightarrow> \<not> is_position_line (a # r)"
  by (simp add: is_position_line_def)

lemma not_position_third: "c \<noteq> CHR ''P'' \<Longrightarrow> \<not> is_position_line (a # b # c # r)"
  by (simp add: is_position_line_def)

lemma not_position_fifth: "e \<noteq> CHR ''s'' \<Longrightarrow> \<not> is_position_line (a # b # c # d # e # r)"
  by (simp add: is_position_line_def)

lemma position_line_is:
  "is_position_line (CHR ''-'' # CHR '' '' # CHR ''P'' # CHR ''o'' # CHR ''s'' # CHR ''i'' # CHR ''t'' #
                     CHR ''i'' # CHR ''o'' # CHR ''n'' # CHR '':'' # CHR '' '' # r)"
  by (simp add: is_position_line_def)

lemmas position_line_simps = not_position_first not_position_third not_position_fifth position_line_is

lemma when_str_lines:
  "(\<exists>x\<in>set (when_str v f). is_position_line x) = (\<exists>s. v = Some s \<and> s \<noteq> [] \<and> is_position_line (f s))"
  by (auto simp: when_str_def split: option.splits)

lemma when_num_lines:
  "(\<exists>x\<in>set (when_num v f). is_position_line x) = (\<exists>n. v = Some n \<and> n \<noteq> 0 \<and> is_position_line (f n))"
  by (auto simp: when_num_def split: option.splits)

lemma when_nonempty_lines:
  assumes "\<forall>ys. \<forall>x\<in>set (f ys). \<not> is_position_line x"
  shows "(\<exists>x\<in>set (when_nonempty v f []). is_position_line x) = False"
  using assms by (auto simp: when_nonempty_def split: option.splits)

lemma subtask_line_not_position: "\<not> is_position_line (details_subtask_line p)"
  by (cases p) (simp add: details_subtask_line_def Let_def position_line_simps)

lemma date_line_not_position: "\<not> is_position_line (details_date_line p)"
  by (cases p) (simp add: details_date_line_def position_line_simps)

lemma relation_line_not_position: "\<not> is_position_line (details_relation_line p)"
  by (cases p) (simp add: details_relation_line_def position_line_simps)

lemma details_position_line:
  "(\<exists>x\<in>set (task_details_pieces task). is_position_line x) =
   (\<exists>p. task_position task = Some p \<and> p \<noteq> 0)"
  unfolding task_details_pieces_def
  by (auto simp: bex_Un when_str_lines when_num_lines when_nonempty_lines
        subtask_line_not_position date_line_not_position relation_line_not_position
        position_line_simps split: option.splits)

lemma updated_position_line:
  "(\<exists>x\<in>set (updated_task_pieces task). is_position_line x) =
   (\<exists>p. task_position task = Some p \<and> p \<noteq> 0)"
  unfolding updated_task_pieces_def
  by (simp add: bex_Un when_str_lines when_num_lines position_line_simps)

lemma when_num_zero: "when_num (Some 0) f = when_num None f"
  by (simp add: when_num_def)

lemma details_zero: "task_position task = Some 0 \<Longrightarrow>
   task_details_pieces task = task_details_pieces (task\<lparr>task_position := None\<rparr>)"
  by (simp add: task_details_pieces_def when_num_zero)

lemma updated_zero: "task_position task = Some 0 \<Longrightarrow>
   updated_task_pieces task = updated_task_pieces (task\<lparr>task_position := None\<rparr>)"
  by (simp add: updated_task_pieces_def when_num_zero)

lemma details_shown: "task_position task = Some p \<Longrightarrow> p \<noteq> 0 \<Longrightarrow>
   (''- Position: '' @ show_int p @ ''\<newline>'') \<in> set (task_details_pieces task)"
  by (simp add: task_details_pieces_def when_num_def)

lemma updated_shown: "task_position task = Some p \<Longrightarrow> p \<noteq> 0 \<Longrightarrow>
   (''- Position: '' @ show_int p @ ''\<newline>'') \<in> set (updated_task_pieces task)"
  by (simp add: updated_task_pieces_def when_num_def)

lemma get_task_details_text:
  "getTaskDetails svc taskId includePosition s = (Inr task, s') \<Longrightarrow>
   get_task_details svc taskId includePosition s = (concat (task_details_pieces task), s')"
  by (simp add: get_task_details_def get_task_details_try_def try_catch_def await_def returns_def)

lemma update_task_text:
  "updateTask svc taskId (update_task_updates n c d col p r t pe) s = (Inr u, s1) \<Longrightarrow>
   getTaskDetails svc taskId None s1 = (Inr task, s2) \<Longrightarrow>
   update_task svc taskId n c d col p r t pe s = (concat (updated_task_pieces task), s2)"
  by (simp add: update_task_def update_task_try_def try_catch_def await_def returns_def Let_def)

subsection \<open>The fields of the client and of the in-memory board\<close>

lemma kanbanService_sels:
  "getBoard (kanbanService api) = client_getBoard api"
  "createTask (kanbanService api) = client_createTask api"
  "getTasksByColumnId (kanbanService api) = client_getTasksByColumnId api"
  "getTaskDetails (kanbanService api) = client_getTaskDetails api"
  "updateTask (kanbanService api) = client_updateTask api"
  "getAllTasks (kanbanService api) = client_getAllTasks api"
  "addSubtask (kanbanService api) = client_addSubtask api"
  "updateSubtaskByPosition (kanbanService api) = client_updateSubtaskByPosition api"
  "addLabel (kanbanService api) = client_addLabel api"
  "updateLabel (kanbanService api) = client_updateLabel api"
  "setTaskDueDate (kanbanService api) = client_setTaskDueDate api"
  "updateCustomField (kanbanService api) = client_updateCustomField api"
  "addComment (kanbanService api) = client_addComment api"
  "updateComment (kanbanService api) = client_updateComment api"
  "addMultipleSubtasks (kanbanService api) = client_addMultipleSubtasks api"
  "createTaskWithSubtasks (kanbanService api) = client_createTaskWithSubtasks api"
  by (simp_all add: kanbanService_def)

lemma memory_api_sels:
  "readTask memory_api = (\<lambda>taskId includePosition. on_task taskId (\<lambda>t. (t, t)))"
  "listAll memory_api =
     (\<lambda>m. (Inr (map (\<lambda>c. (c, filter (\<lambda>t. task_columnId t = col_uniqueId c) (mem_tasks m)))
                              (mem_columns m)), m))"
  "replaceSubtasks memory_api = (\<lambda>taskId subs. on_task taskId (\<lambda>t. ((), t\<lparr>task_subTasks := Some subs\<rparr>)))"
  "replaceLabels memory_api = (\<lambda>taskId labels. on_task taskId (\<lambda>t. ((), t\<lparr>task_labels := Some labels\<rparr>)))"
  by (simp_all add: memory_api_def)

subsection \<open>Evaluating the in-memory board\<close>

lemma demo_read:
  "getTaskDetails (kanbanService memory_api) ''task-1'' (Some True) (fresh_client demo_memory) =
     (Inr demo_task, \<lparr>remote_state = demo_memory, issued = [ReadTask ''task-1'']\<rparr>)"
  by (simp add: kanbanService_def client_getTaskDetails_def issue_def memory_api_def on_task_def
        fresh_client_def demo_memory_def demo_task_def plain_task_def)

lemma demo_update:
  "updateTask (kanbanService memory_api) ''task-1''
     (update_task_updates (Some ''Write the report'') None None None None None None None)
     (fresh_client demo_memory) =
     (Inr (), \<lparr>remote_state = demo_memory\<lparr>mem_tasks := [demo_task\<lparr>task_name := ''Write the report''\<rparr>]\<rparr>,
               issued = [UpdateTaskCall ''task-1'' [(''name'', JStr ''Write the report'')]]\<rparr>)"
  by (simp add: kanbanService_def client_updateTask_def issue_def memory_api_def on_task_def
        fresh_client_def demo_memory_def demo_task_def plain_task_def apply_task_updates_def
        update_task_updates_def assign_if_defined_def set_prop_def get_prop_def)


lemma demo_read_after_update:
  "getTaskDetails (kanbanService memory_api) ''task-1'' None
     \<lparr>remote_state = demo_memory\<lparr>mem_tasks := [demo_task\<lparr>task_name := ''Write the report''\<rparr>]\<rparr>,
      issued = [UpdateTaskCall ''task-1'' [(''name'', JStr ''Write the report'')]]\<rparr> =
     (Inr (demo_task\<lparr>task_name := ''Write the report''\<rparr>),
      \<lparr>remote_state = demo_memory\<lparr>mem_tasks := [demo_task\<lparr>task_name := ''Write the report''\<rparr>]\<rparr>,
       issued = [UpdateTaskCall ''task-1'' [(''name'', JStr ''Write the report'')], ReadTask ''task-1'']\<rparr>)"
  by (simp add: kanbanService_def client_getTaskDetails_def issue_def memory_api_def on_task_def
        demo_memory_def demo_task_def plain_task_def)

subsection \<open>Position 0 in the narratives\<close>

text \<open>
  C10. The success narratives of get-task-details and update-task are the concatenation
  of the pieces built from the task that the client returns, whatever \<open>includePosition\<close>
  was. In both, a Position line is present exactly when the position of the task is a
  number other than 0: a task at position 0 has the same narrative as a task without a
  position, and a non-zero position is shown as \<open>- Position: p\<close>.
\<close>

theorem position_line_only_for_nonzero_position:
  "(getTaskDetails svc taskId includePosition s = (Inr task, s') \<longrightarrow>
      get_task_details svc taskId includePosition s = (concat (task_details_pieces task), s'))
   \<and> (updateTask svc taskId (update_task_updates n c d col p r t pe) s = (Inr u, s1) \<and>
      getTaskDetails svc taskId None s1 = (Inr task, s2) \<longrightarrow>
      update_task svc taskId n c d col p r t pe s = (concat (updated_task_pieces task), s2))
   \<and> (\<exists>x\<in>set (task_details_pieces task). is_position_line x) =
      (\<exists>q. task_position task = Some q \<and> q \<noteq> 0)
   \<and> (\<exists>x\<in>set (updated_task_pieces task). is_position_line x) =
      (\<exists>q. task_position task = Some q \<and> q \<noteq> 0)
   \<and> (task_position task = Some 0 \<longrightarrow>
      task_details_pieces task = task_details_pieces (task\<lparr>task_position := None\<rparr>) \<and>
      updated_task_pieces task = updated_task_pieces (task\<lparr>task_position := None\<rparr>))
   \<and> (\<forall>q. task_position task = Some q \<and> q \<noteq> 0 \<longrightarrow>
      (''- Position: '' @ show_int q @ ''\<newline>'') \<in> set (task_details_pieces task) \<and>
      (''- Position: '' @ show_int q @ ''\<newline>'') \<in> set (updated_task_pieces task))"
  using get_task_details_text [of svc taskId includePosition s task s']
        update_task_text [of svc taskId n c d col p r t pe s u s1 task s2]
        details_position_line [of task] updated_position_line [of task]
        details_zero [of task] updated_zero [of task]
        details_shown [of task] updated_shown [of task]
  by blast

theorem position_zero_example:
  "task_position demo_task = Some 0
   \<and> get_task_details (kanbanService memory_api) ''task-1'' (Some True) (fresh_client demo_memory) =
       (concat (task_details_pieces demo_task),
        \<lparr>remote_state = demo_memory, issued = [ReadTask ''task-1'']\<rparr>)
   \<and> \<not> (\<exists>x\<in>set (task_details_pieces demo_task). is_position_line x)
   \<and> task_details_pieces demo_task = task_details_pieces (demo_task\<lparr>task_position := None\<rparr>)
   \<and> fst (update_task (kanbanService memory_api) ''task-1'' (Some ''Write the report'') None None None
             None None None None (fresh_client demo_memory)) =
       concat (updated_task_pieces (demo_task\<lparr>task_name := ''Write the report''\<rparr>))
   \<and> \<not> (\<exists>x\<in>set (updated_task_pieces (demo_task\<lparr>task_name := ''Write the report''\<rparr>)). is_position_line x)
   \<and> (''- Position: '' @ show_int 3 @ ''\<newline>'') \<in> set (task_details_pieces (demo_task\<lparr>task_position := Some 3\<rparr>))"
proof -
  have zero: "task_position demo_task = Some 0"
    by (simp add: demo_task_def)
  have zero': "task_position (demo_task\<lparr>task_name := ''Write the report''\<rparr>) = Some 0"
    by (simp add: demo_task_def)
  have three: "task_position (demo_task\<lparr>task_position := Some 3\<rparr>) = Some 3 \<and> (3::int) \<noteq> 0"
    by simp
  note a = position_line_only_for_nonzero_position
             [where svc = "kanbanService memory_api" and taskId = "''task-1''"
                and includePosition = "Some True" and s = "fresh_client demo_memory"
                and task = demo_task
                and s' = "\<lparr>remote_state = demo_memory, issued = [ReadTask ''task-1'']\<rparr>"]
  note b = position_line_only_for_nonzero_position
             [where svc = "kanbanService memory_api" and taskId = "''task-1''"
                and s = "fresh_client demo_memory"
                and n = "Some ''Write the report''" and c = None and d = None and col = None
                and p = None and r = None and t = None and pe = None and u = "()"
                and ?s1.0 = "\<lparr>remote_state = demo_memory\<lparr>mem_tasks := [demo_task\<lparr>task_name := ''Write the report''\<rparr>]\<rparr>,
                             issued = [UpdateTaskCall ''task-1'' [(''name'', JStr ''Write the report'')]]\<rparr>"
                and task = "demo_task\<lparr>task_name := ''Write the report''\<rparr>"
                and ?s2.0 = "\<lparr>remote_state = demo_memory\<lparr>mem_tasks := [demo_task\<lparr>task_name := ''Write the report''\<rparr>]\<rparr>,
                             issued = [UpdateTaskCall ''task-1'' [(''name'', JStr ''Write the report'')], ReadTask ''task-1'']\<rparr>"]
  note c = position_line_only_for_nonzero_position
             [where svc = "kanbanService memory_api" and s = "fresh_client demo_memory"
                and ?s1.0 = "fresh_client demo_memory" and ?s2.0 = "fresh_client demo_memory"
                and s' = "fresh_client demo_memory"
                and task = "demo_task\<lparr>task_position := Some 3\<rparr>",
              THEN conjunct2, THEN conjunct2, THEN conjunct2, THEN conjunct2, THEN conjunct2,
              THEN spec, of 3]
  from a demo_read zero have
    "get_task_details (kanbanService memory_api) ''task-1'' (Some True) (fresh_client demo_memory) =
       (concat (task_details_pieces demo_task),
        \<lparr>remote_state = demo_memory, issued = [ReadTask ''task-1'']\<rparr>)"
    and "\<not> (\<exists>x\<in>set (task_details_pieces demo_task). is_position_line x)"
    and "task_details_pieces demo_task = task_details_pieces (demo_task\<lparr>task_position := None\<rparr>)"
    by auto
  moreover from b demo_update demo_read_after_update zero' have
    "fst (update_task (kanbanService memory_api) ''task-1'' (Some ''Write the report'') None None None
             None None None None (fresh_client demo_memory)) =
       concat (updated_task_pieces (demo_task\<lparr>task_name := ''Write the report''\<rparr>))"
    and "\<not> (\<exists>x\<in>set (updated_task_pieces (demo_task\<lparr>task_name := ''Write the report''\<rparr>)). is_position_line x)"
    by auto
  moreover from c three have
    "(''- Position: '' @ show_int 3 @ ''\<newline>'') \<in> set (task_details_pieces (demo_task\<lparr>task_position := Some 3\<rparr>))"
    by simp
  ultimately show ?thesis using zero by blast
qed

subsection \<open>The tool-invocation boundary\<close>

lemma callback_is_try_catch:
  "callback svc t args =
     try_catch (try_block svc t args) (\<lambda>error. ''Failed to '' @ verb t @ '': '' @ message error)"
  by (cases t)
     (simp_all add: get_board_def create_task_def get_tasks_def get_task_details_def update_task_def
        get_all_tasks_def add_subtask_def update_subtask_by_position_def add_label_def update_label_def
        set_task_due_date_def update_custom_field_def add_comment_def update_comment_def
        add_subtasks_def create_task_with_subtasks_def)

lemma accepted_call:
  assumes "validate (inputSchema t) args"
  shows "call_tool svc t args s =
           (case try_block svc t args s of
              (Inl e, s') \<Rightarrow> (Content (''Failed to '' @ verb t @ '': '' @ message e), s')
            | (Inr text, s') \<Rightarrow> (Content text, s'))"
  using assms
  by (simp add: call_tool_def callback_is_try_catch try_catch_def split: prod.splits sum.splits)

lemma rejected_call: "\<not> validate (inputSchema t) args \<Longrightarrow> call_tool svc t args s = (InvalidParams, s)"
  by (simp add: call_tool_def)

lemma color_accepts: "accepts (ZOptional color_enum) (Some (JStr c)) = (c \<in> set color_values)"
  by (simp add: color_enum_def color_values_def)

lemma color_rejects:
  "v \<notin> JStr ` set color_values \<Longrightarrow> \<not> accepts (ZOptional color_enum) (Some v)"
  by (cases v) (auto simp: color_enum_def color_values_def)

lemma color_declared:
  "(map_of (inputSchema t) ''color'' \<noteq> None) = (t = UpdateTask \<or> t = CreateTaskWithSubtasks)"
  by (cases t) simp_all

lemma color_schema:
  "t = UpdateTask \<or> t = CreateTaskWithSubtasks \<Longrightarrow>
   validate (inputSchema t) args \<Longrightarrow> accepts (ZOptional color_enum) (get_prop args ''color'')"
  by (auto simp: validate_def get_prop_def)

lemma position_schema:
  "t = UpdateTask \<or> t = CreateTaskWithSubtasks \<Longrightarrow>
   validate (inputSchema t) args \<Longrightarrow> accepts (ZOptional (ZUnion [ZString, ZNumber])) (get_prop args ''position'')"
  by (auto simp: validate_def get_prop_def)

lemma map_of_set_prop: "map_of (set_prop k v obj) k' = (if k' = k then Some v else map_of obj k')"
  by (simp add: set_prop_def update_conv')

lemma validate_set_color:
  "t = UpdateTask \<or> t = CreateTaskWithSubtasks \<Longrightarrow> validate (inputSchema t) args \<Longrightarrow>
   c \<in> set color_values \<Longrightarrow> validate (inputSchema t) (set_prop ''color'' (JStr c) args)"
  by (auto simp: validate_def map_of_set_prop color_enum_def color_values_def)

lemma validate_set_position:
  "t = UpdateTask \<or> t = CreateTaskWithSubtasks \<Longrightarrow> validate (inputSchema t) args \<Longrightarrow>
   (\<exists>s. v = JStr s) \<or> (\<exists>n. v = JNum n) \<Longrightarrow> validate (inputSchema t) (set_prop ''position'' v args)"
  by (auto simp: validate_def map_of_set_prop)

lemma position_accepts:
  "accepts (ZOptional (ZUnion [ZString, ZNumber])) v =
     (v = None \<or> (\<exists>s. v = Some (JStr s)) \<or> (\<exists>n. v = Some (JNum n)))"
  by (auto split: option.splits jvalue.splits)

lemma position_declared:
  "(map_of (inputSchema t) ''position'' \<noteq> None) = (t = UpdateTask \<or> t = CreateTaskWithSubtasks)"
  by (cases t) simp_all

lemma demo_add_label_fails:
  "try_block (kanbanService memory_api) AddLabel [(''taskId'', JStr ''task-9''), (''name'', JStr ''urgent'')]
     (fresh_client demo_memory) =
   (Inl not_found, \<lparr>remote_state = demo_memory, issued = [AppendLabel ''task-9'' \<lparr>alr_name = ''urgent'', alr_pinned = None\<rparr>]\<rparr>)"
  by (simp add: add_label_try_def kanbanService_def client_addLabel_def issue_def memory_api_def
        on_task_def fresh_client_def demo_memory_def demo_task_def plain_task_def await_def
        arg_str_def arg_opt_str_def arg_opt_bool_def get_prop_def Let_def)

text \<open>
  C1 (as amended). For every registered tool and every call whose arguments the tool's
  schema accepts, the call returns normal text content, whatever the Remote Client does:
  when the try block of the tool raises an error (a remote-call or logical error of the
  client), the callback catches it and the text is \<open>Failed to <verb>: <message>\<close>;
  otherwise the text is the success narrative. A call whose arguments the schema rejects
  does not reach the callback: the server answers it with its invalid-parameters error
  and the state is unchanged.
\<close>

theorem errors_in_try_block_become_failure_text:
  "(validate (inputSchema t) args \<longrightarrow>
      call_tool svc t args s =
        (case try_block svc t args s of
           (Inl e, s') \<Rightarrow> (Content (''Failed to '' @ verb t @ '': '' @ message e), s')
         | (Inr text, s') \<Rightarrow> (Content text, s')))
   \<and> (\<not> validate (inputSchema t) args \<longrightarrow> call_tool svc t args s = (InvalidParams, s))"
  using accepted_call [of t args svc s] rejected_call [of t args svc s] by blast

text \<open>A failure of the remote layer during add-label, and arguments without the label name.\<close>

theorem failed_add_label_example:
  "validate (inputSchema AddLabel) [(''taskId'', JStr ''task-9''), (''name'', JStr ''urgent'')]
   \<and> fst (call_tool (kanbanService memory_api) AddLabel
             [(''taskId'', JStr ''task-9''), (''name'', JStr ''urgent'')] (fresh_client demo_memory)) =
       Content ''Failed to add label: Task not found''
   \<and> \<not> validate (inputSchema AddLabel) [(''taskId'', JStr ''task-9'')]
   \<and> call_tool (kanbanService memory_api) AddLabel [(''taskId'', JStr ''task-9'')] (fresh_client demo_memory) =
       (InvalidParams, fresh_client demo_memory)"
proof -
  have ok: "validate (inputSchema AddLabel) [(''taskId'', JStr ''task-9''), (''name'', JStr ''urgent'')]"
    by (simp add: validate_def)
  have bad: "\<not> validate (inputSchema AddLabel) [(''taskId'', JStr ''task-9'')]"
    by (simp add: validate_def)
  from errors_in_try_block_become_failure_text
         [of AddLabel "[(''taskId'', JStr ''task-9''), (''name'', JStr ''urgent'')]"
             "kanbanService memory_api" "fresh_client demo_memory"] ok
  have "call_tool (kanbanService memory_api) AddLabel
             [(''taskId'', JStr ''task-9''), (''name'', JStr ''urgent'')] (fresh_client demo_memory) =
        (case try_block (kanbanService memory_api) AddLabel
                [(''taskId'', JStr ''task-9''), (''name'', JStr ''urgent'')] (fresh_client demo_memory) of
           (Inl e, s') \<Rightarrow> (Content (''Failed to '' @ verb AddLabel @ '': '' @ message e), s')
         | (Inr text, s') \<Rightarrow> (Content text, s'))"
    by blast
  then have "fst (call_tool (kanbanService memory_api) AddLabel
             [(''taskId'', JStr ''task-9''), (''name'', JStr ''urgent'')] (fresh_client demo_memory)) =
       Content ''Failed to add label: Task not found''"
    by (simp only: demo_add_label_fails) (simp add: not_found_def)
  moreover from errors_in_try_block_become_failure_text
         [of AddLabel "[(''taskId'', JStr ''task-9'')]" "kanbanService memory_api" "fresh_client demo_memory"] bad
  have "call_tool (kanbanService memory_api) AddLabel [(''taskId'', JStr ''task-9'')] (fresh_client demo_memory) =
       (InvalidParams, fresh_client demo_memory)"
    by blast
  ultimately show ?thesis using ok bad by blast
qed

text \<open>
  The claim as stated fails for a validation error: update-task with the colour
  \<open>teal\<close> is not answered by a text of the tool.
\<close>

theorem invalid_arguments_get_no_failure_text:
  "fst (call_tool (kanbanService memory_api) UpdateTask
          [(''taskId'', JStr ''task-1''), (''color'', JStr ''teal'')] (fresh_client demo_memory)) = InvalidParams"
  by (simp add: call_tool_def validate_def color_enum_def)

subsection \<open>The colour enumeration\<close>

text \<open>
  C6. The tools that declare a \<open>color\<close> argument are update-task and
  create-task-with-subtasks. For both, a call whose \<open>color\<close> is any value outside the
  ten-value enumeration is rejected by validation and leaves the state untouched (the
  callback, hence every remote call, is not run); and giving a colour of the enumeration
  to accepted arguments keeps them accepted.
\<close>

theorem color_outside_enumeration_is_rejected:
  "(map_of (inputSchema t) ''color'' \<noteq> None) = (t = UpdateTask \<or> t = CreateTaskWithSubtasks)
   \<and> accepts (ZOptional color_enum) (Some (JStr c)) = (c \<in> set color_values)
   \<and> (t = UpdateTask \<or> t = CreateTaskWithSubtasks \<longrightarrow>
        (get_prop args ''color'' = Some v \<and> v \<notin> JStr ` set color_values \<longrightarrow>
           call_tool svc t args s = (InvalidParams, s))
      \<and> (validate (inputSchema t) args \<and> c \<in> set color_values \<longrightarrow>
           validate (inputSchema t) (set_prop ''color'' (JStr c) args)))"
proof -
  have "call_tool svc t args s = (InvalidParams, s)"
    if "t = UpdateTask \<or> t = CreateTaskWithSubtasks" "get_prop args ''color'' = Some v"
       "v \<notin> JStr ` set color_values"
  proof (rule rejected_call, rule notI)
    assume "validate (inputSchema t) args"
    from color_schema [OF that(1) this] have "accepts (ZOptional color_enum) (Some v)"
      unfolding that(2) .
    with color_rejects [OF that(3)] show False ..
  qed
  then show ?thesis
    using color_declared [of t] validate_set_color [of t args c] color_accepts [of c] by blast
qed

theorem color_example:
  "call_tool (kanbanService memory_api) UpdateTask
     [(''taskId'', JStr ''task-1''), (''color'', JStr ''teal'')] (fresh_client demo_memory) =
     (InvalidParams, fresh_client demo_memory)
   \<and> issued (fresh_client demo_memory) = []
   \<and> validate (inputSchema UpdateTask) [(''taskId'', JStr ''task-1''), (''color'', JStr ''red'')]
   \<and> validate (inputSchema CreateTaskWithSubtasks)
        [(''name'', JStr ''T''), (''columnId'', JStr ''col-1''), (''subtasks'', JArr []), (''color'', JStr ''cyan'')]"
proof -
  have teal: "get_prop [(''taskId'', JStr ''task-1''), (''color'', JStr ''teal'')] ''color'' = Some (JStr ''teal'')
              \<and> JStr ''teal'' \<notin> JStr ` set color_values"
    by (simp add: get_prop_def color_values_def image_iff)
  have base: "validate (inputSchema UpdateTask) [(''taskId'', JStr ''task-1'')] \<and> ''red'' \<in> set color_values"
    by (simp add: validate_def color_values_def)
  have base2: "validate (inputSchema CreateTaskWithSubtasks)
        [(''name'', JStr ''T''), (''columnId'', JStr ''col-1''), (''subtasks'', JArr [])] \<and> ''cyan'' \<in> set color_values"
    by (simp add: validate_def color_values_def)
  from color_outside_enumeration_is_rejected
         [where t = UpdateTask and args = "[(''taskId'', JStr ''task-1''), (''color'', JStr ''teal'')]"
            and v = "JStr ''teal''" and svc = "kanbanService memory_api"
            and s = "fresh_client demo_memory" and c = "''teal''"] teal
  have "call_tool (kanbanService memory_api) UpdateTask
     [(''taskId'', JStr ''task-1''), (''color'', JStr ''teal'')] (fresh_client demo_memory) =
     (InvalidParams, fresh_client demo_memory)" by blast
  moreover from color_outside_enumeration_is_rejected
         [where t = UpdateTask and args = "[(''taskId'', JStr ''task-1'')]" and c = "''red''"
            and v = JNull and svc = "kanbanService memory_api" and s = "fresh_client demo_memory"] base
  have "validate (inputSchema UpdateTask) [(''taskId'', JStr ''task-1''), (''color'', JStr ''red'')]"
    by (simp add: set_prop_def)
  moreover from color_outside_enumeration_is_rejected
         [where t = CreateTaskWithSubtasks
            and args = "[(''name'', JStr ''T''), (''columnId'', JStr ''col-1''), (''subtasks'', JArr [])]"
            and c = "''cyan''" and v = JNull and svc = "kanbanService memory_api"
            and s = "fresh_client demo_memory"] base2
  have "validate (inputSchema CreateTaskWithSubtasks)
        [(''name'', JStr ''T''), (''columnId'', JStr ''col-1''), (''subtasks'', JArr []), (''color'', JStr ''cyan'')]"
    by (simp add: set_prop_def)
  ultimately show ?thesis by (simp add: fresh_client_def)
qed

subsection \<open>The position argument\<close>

text \<open>
  C8 (as amended). The tools that declare a \<open>position\<close> argument are update-task and
  create-task-with-subtasks. For both, validation accepts for \<open>position\<close> any string and
  any number (so \<open>top\<close>, \<open>bottom\<close> and \<open>0\<close> are accepted), or its absence, and nothing
  else.
\<close>

theorem position_accepts_any_string_or_number:
  "(map_of (inputSchema t) ''position'' \<noteq> None) = (t = UpdateTask \<or> t = CreateTaskWithSubtasks)
   \<and> (t = UpdateTask \<or> t = CreateTaskWithSubtasks \<longrightarrow>
        (validate (inputSchema t) args \<longrightarrow>
           get_prop args ''position'' = None \<or> (\<exists>str. get_prop args ''position'' = Some (JStr str)) \<or>
           (\<exists>n. get_prop args ''position'' = Some (JNum n)))
      \<and> (validate (inputSchema t) args \<and> ((\<exists>str. v = JStr str) \<or> (\<exists>n. v = JNum n)) \<longrightarrow>
           validate (inputSchema t) (set_prop ''position'' v args)))"
  using position_declared [of t] position_schema [of t args]
        position_accepts [of "get_prop args ''position''"] validate_set_position [of t args v]
  by blast

theorem position_example:
  "validate (inputSchema UpdateTask) [(''taskId'', JStr ''task-1''), (''position'', JStr ''top'')]
   \<and> validate (inputSchema UpdateTask) [(''taskId'', JStr ''task-1''), (''position'', JNum 0)]
   \<and> validate (inputSchema CreateTaskWithSubtasks)
        [(''name'', JStr ''T''), (''columnId'', JStr ''col-1''), (''subtasks'', JArr []), (''position'', JStr ''bottom'')]"
proof -
  have base: "validate (inputSchema UpdateTask) [(''taskId'', JStr ''task-1'')]"
    by (simp add: validate_def)
  have base2: "validate (inputSchema CreateTaskWithSubtasks)
        [(''name'', JStr ''T''), (''columnId'', JStr ''col-1''), (''subtasks'', JArr [])]"
    by (simp add: validate_def)
  from position_accepts_any_string_or_number
         [where t = UpdateTask and args = "[(''taskId'', JStr ''task-1'')]" and v = "JStr ''top''"] base
  have "validate (inputSchema UpdateTask) [(''taskId'', JStr ''task-1''), (''position'', JStr ''top'')]"
    by (simp add: set_prop_def)
  moreover from position_accepts_any_string_or_number
         [where t = UpdateTask and args = "[(''taskId'', JStr ''task-1'')]" and v = "JNum 0"] base
  have "validate (inputSchema UpdateTask) [(''taskId'', JStr ''task-1''), (''position'', JNum 0)]"
    by (simp add: set_prop_def)
  moreover from position_accepts_any_string_or_number
         [where t = CreateTaskWithSubtasks
            and args = "[(''name'', JStr ''T''), (''columnId'', JStr ''col-1''), (''subtasks'', JArr [])]"
            and v = "JStr ''bottom''"] base2
  have "validate (inputSchema CreateTaskWithSubtasks)
        [(''name'', JStr ''T''), (''columnId'', JStr ''col-1''), (''subtasks'', JArr []), (''position'', JStr ''bottom'')]"
    by (simp add: set_prop_def)
  ultimately show ?thesis by blast
qed

text \<open>
  The claim as stated fails: a string other than the two tokens, and a negative number,
  are accepted.
\<close>

theorem position_middle_is_accepted:
  "validate (inputSchema UpdateTask) [(''taskId'', JStr ''task-1''), (''position'', JStr ''middle'')]
   \<and> validate (inputSchema UpdateTask) [(''taskId'', JStr ''task-1''), (''position'', JNum (- 1))]"
  by (simp add: validate_def)

subsection \<open>The cap of get-all-tasks\<close>













subsection \<open>Subtasks addressed by position\<close>

lemma client_read:
  "readTask api taskId includePosition (remote_state c) = (Inr task, r1) \<Longrightarrow>
   client_getTaskDetails api taskId includePosition c =
     (Inr task, \<lparr>remote_state = r1, issued = issued c @ [ReadTask taskId]\<rparr>)"
  by (simp add: client_getTaskDetails_def issue_def)

lemma demo_readTask:
  "readTask memory_api ''task-1'' None (remote_state (fresh_client demo_memory)) = (Inr demo_task, demo_memory)"
  by (simp add: memory_api_sels on_task_def fresh_client_def demo_memory_def demo_task_def plain_task_def)

lemma demo_current:
  "current_subtasks demo_task =
     [\<lparr>sub_name = Some ''outline'', sub_finished = Some True, sub_userId = None,
       sub_dueDateTimestamp = None, sub_dueDateTimestampLocal = None\<rparr>,
      \<lparr>sub_name = Some ''draft'', sub_finished = None, sub_userId = None,
       sub_dueDateTimestamp = None, sub_dueDateTimestampLocal = None\<rparr>]"
  "current_labels demo_task =
     [\<lparr>lab_name = ''urgent'', lab_pinned = None\<rparr>, \<lparr>lab_name = ''docs'', lab_pinned = None\<rparr>,
      \<lparr>lab_name = ''urgent'', lab_pinned = Some True\<rparr>]"
  by (simp_all add: current_subtasks_def current_labels_def demo_task_def plain_task_def)

lemma show_small: "show_nat 2 = ''2''" "show_int 2 = ''2''" "show_int 7 = ''7''"
  by (simp_all add: show_int_def show_nat.simps [of 2] show_nat.simps [of 7] digit_char_def char_of_def
        bit_Suc_0_iff)

lemma client_updateSubtask_out_of_range:
  assumes "readTask api taskId None (remote_state c) = (Inr task, r1)"
    and "int (length (current_subtasks task)) \<le> index"
  shows "client_updateSubtaskByPosition api taskId index updates c =
           (Inl (out_of_range_error index (length (current_subtasks task))),
            \<lparr>remote_state = r1, issued = issued c @ [ReadTask taskId]\<rparr>)"
  using assms(2)
  by (simp add: client_updateSubtaskByPosition_def await_def client_read [OF assms(1)] throws_def
        current_subtasks_def)

text \<open>
  C3. For every task that the remote service returns and every index greater than or
  equal to the current number of its subtasks, update-subtask-by-position fails with the
  descriptive out-of-range message, which names the index and the number of subtasks,
  and the only request issued is the read of the task: no write is issued and the
  remote state is the one that the read left.
\<close>

theorem subtask_index_out_of_range_fails_without_write:
  assumes "readTask api taskId None (remote_state c) = (Inr task, r1)"
    and "int (length (current_subtasks task)) \<le> index"
  shows "update_subtask_by_position (kanbanService api) taskId index name finished userId
           dueDateTimestamp dueDateTimestampLocal c =
           (''Failed to update subtask: Subtask index '' @ show_int index @
            '' is out of range (task has '' @ show_nat (length (current_subtasks task)) @ '' subtasks)'',
            \<lparr>remote_state = r1, issued = issued c @ [ReadTask taskId]\<rparr>)
         \<and> filter is_write (issued (snd (update_subtask_by_position (kanbanService api) taskId index
                                           name finished userId dueDateTimestamp
                                           dueDateTimestampLocal c))) =
           filter is_write (issued c)"
  using client_updateSubtask_out_of_range [OF assms]
  by (simp add: update_subtask_by_position_def update_subtask_by_position_try_def try_catch_def
        await_def kanbanService_sels out_of_range_error_def)

theorem subtask_index_example:
  "length (current_subtasks demo_task) = 2
   \<and> update_subtask_by_position (kanbanService memory_api) ''task-1'' 2 (Some ''final'') None None None None
       (fresh_client demo_memory) =
       (''Failed to update subtask: Subtask index 2 is out of range (task has 2 subtasks)'',
        \<lparr>remote_state = demo_memory, issued = [ReadTask ''task-1'']\<rparr>)
   \<and> update_subtask_by_position (kanbanService memory_api) ''task-1'' 7 None (Some True) None None None
       (fresh_client demo_memory) =
       (''Failed to update subtask: Subtask index 7 is out of range (task has 2 subtasks)'',
        \<lparr>remote_state = demo_memory, issued = [ReadTask ''task-1'']\<rparr>)
   \<and> filter is_write (issued (snd (update_subtask_by_position (kanbanService memory_api) ''task-1'' 7
                                     None (Some True) None None None (fresh_client demo_memory)))) = []"
proof -
  have len: "length (current_subtasks demo_task) = 2"
    by (simp add: demo_current)
  have le2: "int (length (current_subtasks demo_task)) \<le> 2"
    and le7: "int (length (current_subtasks demo_task)) \<le> 7"
    by (simp_all add: len)
  from subtask_index_out_of_range_fails_without_write
         [OF demo_readTask le2, of "Some ''final''" None None None None]
       subtask_index_out_of_range_fails_without_write
         [OF demo_readTask le7, of None "Some True" None None None]
  show ?thesis
    by (simp add: len show_small fresh_client_def)
qed

subsection \<open>Labels addressed by name\<close>

lemma first_index_None: "(first_index P xs = None) = (\<forall>x\<in>set xs. \<not> P x)"
  by (induction xs) auto

lemma first_index_Some:
  "(first_index P xs = Some i) = (i < length xs \<and> P (xs ! i) \<and> (\<forall>j<i. \<not> P (xs ! j)))"
proof (induction xs arbitrary: i)
  case Nil
  then show ?case by simp
next
  case (Cons x xs)
  show ?case
  proof (cases "P x")
    case True
    then show ?thesis by (cases i) auto
  next
    case False
    show ?thesis
    proof (cases i)
      case 0
      with False show ?thesis by simp
    next
      case (Suc k)
      have "(\<forall>j<Suc k. \<not> P ((x # xs) ! j)) = (\<forall>j<k. \<not> P (xs ! j))"
        using False by (auto simp: less_Suc_eq_0_disj)
      with False Suc Cons.IH [of k] show ?thesis by auto
    qed
  qed
qed

lemma client_updateLabel_not_found:
  assumes "readTask api taskId None (remote_state c) = (Inr task, r1)"
    and "\<forall>label\<in>set (current_labels task). lab_name label \<noteq> labelName"
  shows "client_updateLabel api taskId labelName updates c =
           (Inl (label_not_found_error labelName),
            \<lparr>remote_state = r1, issued = issued c @ [ReadTask taskId]\<rparr>)"
proof -
  have "first_index (\<lambda>label. lab_name label = labelName) (current_labels task) = None"
    using assms(2) by (simp add: first_index_None)
  then show ?thesis
    by (simp add: client_updateLabel_def await_def client_read [OF assms(1)] throws_def
          current_labels_def)
qed

lemma client_updateLabel_first:
  assumes "readTask api taskId None (remote_state c) = (Inr task, r1)"
    and "i < length (current_labels task)" and "lab_name (current_labels task ! i) = labelName"
    and "\<forall>j<i. lab_name (current_labels task ! j) \<noteq> labelName"
  shows "client_updateLabel api taskId labelName updates c =
           issue (ReplaceLabels taskId ((current_labels task)[i := patch_label updates (current_labels task ! i)]))
                 (replaceLabels api taskId ((current_labels task)[i := patch_label updates (current_labels task ! i)]))
                 \<lparr>remote_state = r1, issued = issued c @ [ReadTask taskId]\<rparr>"
proof -
  have "first_index (\<lambda>label. lab_name label = labelName) (current_labels task) = Some i"
    using assms(2-4) by (simp add: first_index_Some)
  then show ?thesis
    by (simp add: client_updateLabel_def await_def client_read [OF assms(1)] Let_def
          current_labels_def)
qed

lemma demo_labels_no_Urgent:
  "\<forall>label\<in>set (current_labels demo_task). lab_name label \<noteq> ''Urgent''"
  by (simp add: demo_current)

lemma demo_labels_first_urgent:
  "0 < length (current_labels demo_task) \<and> lab_name (current_labels demo_task ! 0) = ''urgent'' \<and>
   (\<forall>j<0. lab_name (current_labels demo_task ! j) \<noteq> ''urgent'')"
  by (simp add: demo_current)

lemma demo_replaceLabels:
  "replaceLabels memory_api ''task-1'' labels demo_memory =
     (Inr (), demo_memory\<lparr>mem_tasks := [demo_task\<lparr>task_labels := Some labels\<rparr>]\<rparr>)"
  by (simp add: memory_api_sels on_task_def demo_memory_def demo_task_def plain_task_def)

text \<open>
  C4. For every task that the remote service returns and every label name: when no
  label of the task has exactly that name (string equality, hence case-sensitive),
  update-label fails with the descriptive not-found message and the only request issued
  is the read of the task; and when labels of that name exist, the update is applied to
  the first of them in the task's label sequence, and the whole array with that one
  element patched is what is written.
\<close>

theorem update_label_not_found_and_first_match:
  assumes "readTask api taskId None (remote_state c) = (Inr task, r1)"
  shows "((\<forall>label\<in>set (current_labels task). lab_name label \<noteq> labelName) \<longrightarrow>
            update_label (kanbanService api) taskId labelName name pinned c =
              (''Failed to update label: Label \"'' @ labelName @ ''\" not found on task'',
               \<lparr>remote_state = r1, issued = issued c @ [ReadTask taskId]\<rparr>)
          \<and> filter is_write (issued (snd (update_label (kanbanService api) taskId labelName name
                                            pinned c))) = filter is_write (issued c))
         \<and> (i < length (current_labels task) \<and> lab_name (current_labels task ! i) = labelName \<and>
            (\<forall>j<i. lab_name (current_labels task ! j) \<noteq> labelName) \<longrightarrow>
            updateLabel (kanbanService api) taskId labelName updates c =
              (case replaceLabels api taskId
                      ((current_labels task)[i := patch_label updates (current_labels task ! i)]) r1 of
                 (outcome, r2) \<Rightarrow>
                   (outcome,
                    \<lparr>remote_state = r2,
                     issued = issued c @
                       [ReadTask taskId,
                        ReplaceLabels taskId
                          ((current_labels task)[i := patch_label updates (current_labels task ! i)])]\<rparr>)))"
proof (rule conjI; rule impI)
  assume "\<forall>label\<in>set (current_labels task). lab_name label \<noteq> labelName"
  from client_updateLabel_not_found [OF assms this]
  show "update_label (kanbanService api) taskId labelName name pinned c =
              (''Failed to update label: Label \"'' @ labelName @ ''\" not found on task'',
               \<lparr>remote_state = r1, issued = issued c @ [ReadTask taskId]\<rparr>)
          \<and> filter is_write (issued (snd (update_label (kanbanService api) taskId labelName name
                                            pinned c))) = filter is_write (issued c)"
    by (simp add: update_label_def update_label_try_def try_catch_def await_def kanbanService_sels
          label_not_found_error_def)
next
  assume h: "i < length (current_labels task) \<and> lab_name (current_labels task ! i) = labelName \<and>
            (\<forall>j<i. lab_name (current_labels task ! j) \<noteq> labelName)"
  with client_updateLabel_first [OF assms, of i labelName updates]
  show "updateLabel (kanbanService api) taskId labelName updates c =
              (case replaceLabels api taskId
                      ((current_labels task)[i := patch_label updates (current_labels task ! i)]) r1 of
                 (outcome, r2) \<Rightarrow>
                   (outcome,
                    \<lparr>remote_state = r2,
                     issued = issued c @
                       [ReadTask taskId,
                        ReplaceLabels taskId
                          ((current_labels task)[i := patch_label updates (current_labels task ! i)])]\<rparr>))"
    by (simp add: kanbanService_sels issue_def)
qed

theorem update_label_example:
  "update_label (kanbanService memory_api) ''task-1'' ''Urgent'' None (Some True) (fresh_client demo_memory) =
     (''Failed to update label: Label \"Urgent\" not found on task'',
      \<lparr>remote_state = demo_memory, issued = [ReadTask ''task-1'']\<rparr>)
   \<and> updateLabel (kanbanService memory_api) ''task-1'' ''urgent'' [(''pinned'', JBool True)]
       (fresh_client demo_memory) =
     (Inr (),
      \<lparr>remote_state = demo_memory\<lparr>mem_tasks := [demo_task\<lparr>task_labels := Some
           [\<lparr>lab_name = ''urgent'', lab_pinned = Some True\<rparr>, \<lparr>lab_name = ''docs'', lab_pinned = None\<rparr>,
            \<lparr>lab_name = ''urgent'', lab_pinned = Some True\<rparr>]\<rparr>]\<rparr>,
       issued = [ReadTask ''task-1'',
                 ReplaceLabels ''task-1''
                   [\<lparr>lab_name = ''urgent'', lab_pinned = Some True\<rparr>, \<lparr>lab_name = ''docs'', lab_pinned = None\<rparr>,
                    \<lparr>lab_name = ''urgent'', lab_pinned = Some True\<rparr>]]\<rparr>)"
proof -
  note a = update_label_not_found_and_first_match
             [OF demo_readTask, where labelName = "''Urgent''" and name = None and pinned = "Some True"
                and i = 0 and updates = "[]", THEN conjunct1]
  note b = update_label_not_found_and_first_match
             [OF demo_readTask, where labelName = "''urgent''" and name = None and pinned = None
                and i = 0 and updates = "[(''pinned'', JBool True)]", THEN conjunct2]
  from a demo_labels_no_Urgent
  have "update_label (kanbanService memory_api) ''task-1'' ''Urgent'' None (Some True) (fresh_client demo_memory) =
     (''Failed to update label: Label \"Urgent\" not found on task'',
      \<lparr>remote_state = demo_memory, issued = [ReadTask ''task-1'']\<rparr>)"
    by (simp add: fresh_client_def)
  moreover from b demo_labels_first_urgent
  have "updateLabel (kanbanService memory_api) ''task-1'' ''urgent'' [(''pinned'', JBool True)]
       (fresh_client demo_memory) =
     (Inr (),
      \<lparr>remote_state = demo_memory\<lparr>mem_tasks := [demo_task\<lparr>task_labels := Some
           [\<lparr>lab_name = ''urgent'', lab_pinned = Some True\<rparr>, \<lparr>lab_name = ''docs'', lab_pinned = None\<rparr>,
            \<lparr>lab_name = ''urgent'', lab_pinned = Some True\<rparr>]\<rparr>]\<rparr>,
       issued = [ReadTask ''task-1'',
                 ReplaceLabels ''task-1''
                   [\<lparr>lab_name = ''urgent'', lab_pinned = Some True\<rparr>, \<lparr>lab_name = ''docs'', lab_pinned = None\<rparr>,
                    \<lparr>lab_name = ''urgent'', lab_pinned = Some True\<rparr>]]\<rparr>)"
    by (simp add: demo_current demo_replaceLabels patch_label_def get_prop_def fresh_client_def)
  ultimately show ?thesis by blast
qed

subsection \<open>Composite creation of a task with subtasks\<close>

lemma client_addSubtask_run:
  "client_addSubtask api tid st c =
     (case appendSubtask api tid st (remote_state c) of
        (outcome, r') \<Rightarrow> (outcome, \<lparr>remote_state = r', issued = issued c @ [AppendSubtask tid st]\<rparr>))"
  by (simp add: client_addSubtask_def issue_def)

lemma add_in_order_success:
  "add_in_order api tid subs c = (Inr added, c') \<Longrightarrow>
   issued c' = issued c @ map (AppendSubtask tid) subs \<and> map as_name added = map asr_name subs"
proof (induction subs arbitrary: c added c')
  case Nil
  then show ?case by (simp add: returns_def)
next
  case (Cons st rest)
  from Cons.prems obtain result c1 added' where
    first: "client_addSubtask api tid st c = (Inr result, c1)"
    and others: "add_in_order api tid rest c1 = (Inr added', c')"
    and added: "added = \<lparr>as_name = asr_name st, as_insertIndex = ares_insertIndex result\<rparr> # added'"
    by (auto simp: await_def returns_def split: prod.splits sum.splits)
  from first have "issued c1 = issued c @ [AppendSubtask tid st]"
    by (auto simp: client_addSubtask_run split: prod.splits)
  with Cons.IH [OF others] added show ?case by simp
qed

lemma add_in_order_issued:
  "add_in_order api tid subs c = (outcome, c') \<Longrightarrow>
   \<exists>k\<le>length subs. issued c' = issued c @ map (AppendSubtask tid) (take k subs)"
proof (induction subs arbitrary: c outcome c')
  case Nil
  then show ?case by (simp add: returns_def)
next
  case (Cons st rest)
  obtain o1 c1 where first: "client_addSubtask api tid st c = (o1, c1)"
    by (cases "client_addSubtask api tid st c")
  then have log1: "issued c1 = issued c @ [AppendSubtask tid st]"
    by (auto simp: client_addSubtask_run split: prod.splits)
  show ?case
  proof (cases o1)
    case (Inl e)
    with Cons.prems first have "c' = c1" by (simp add: await_def)
    with log1 have "issued c' = issued c @ map (AppendSubtask tid) (take 1 (st # rest))" by simp
    then show ?thesis by (intro exI [of _ 1]) simp
  next
    case (Inr result)
    obtain o2 c2 where others: "add_in_order api tid rest c1 = (o2, c2)"
      by (cases "add_in_order api tid rest c1")
    with Cons.prems first Inr have "c' = c2"
      by (cases o2) (simp_all add: await_def returns_def)
    moreover from Cons.IH [OF others] obtain k where
      "k \<le> length rest" "issued c2 = issued c1 @ map (AppendSubtask tid) (take k rest)" by blast
    ultimately have "issued c' = issued c @ map (AppendSubtask tid) (take (Suc k) (st # rest))"
      and "Suc k \<le> length (st # rest)"
      using log1 by simp_all
    then show ?thesis by blast
  qed
qed

lemma client_createTask_run:
  "client_createTask api req c =
     (case createTaskCall api req (remote_state c) of
        (outcome, r') \<Rightarrow> (outcome, \<lparr>remote_state = r', issued = issued c @ [CreateTaskCall req]\<rparr>))"
  by (simp add: client_createTask_def issue_def)

lemma composite_success:
  assumes "client_createTaskWithSubtasks api req c = (Inr res, c')"
  shows "issued c' = issued c @ CreateTaskCall (task_request req) #
                       map (AppendSubtask (cwres_taskId res)) (cws_subtasks req)
         \<and> cwres_totalSubtasks res = int (length (cws_subtasks req))
         \<and> length (cwres_addedSubtasks res) = length (cws_subtasks req)
         \<and> map as_name (cwres_addedSubtasks res) = map asr_name (cws_subtasks req)"
proof -
  from assms obtain created c1 added where
    create: "client_createTask api (task_request req) c = (Inr created, c1)"
    and adds: "add_in_order api (cres_taskId created) (cws_subtasks req) c1 = (Inr added, c')"
    and res: "res = \<lparr>cwres_taskId = cres_taskId created, cwres_taskName = cws_name req,
                     cwres_addedSubtasks = added, cwres_totalSubtasks = int (length added)\<rparr>"
    by (auto simp: client_createTaskWithSubtasks_def await_def returns_def split: prod.splits sum.splits)
  from create have log1: "issued c1 = issued c @ [CreateTaskCall (task_request req)]"
    by (auto simp: client_createTask_run split: prod.splits)
  from add_in_order_success [OF adds] have
    log2: "issued c' = issued c1 @ map (AppendSubtask (cres_taskId created)) (cws_subtasks req)"
    and names: "map as_name added = map asr_name (cws_subtasks req)" by simp_all
  from names have "length added = length (cws_subtasks req)"
    by (metis length_map)
  with log1 log2 names res show ?thesis by simp
qed

lemma composite_issued:
  assumes "client_createTaskWithSubtasks api req c = (outcome, c')"
  shows "\<exists>tid k. k \<le> length (cws_subtasks req) \<and>
           issued c' = issued c @ CreateTaskCall (task_request req) #
                         map (AppendSubtask tid) (take k (cws_subtasks req))"
proof -
  obtain o1 c1 where create: "client_createTask api (task_request req) c = (o1, c1)"
    by (cases "client_createTask api (task_request req) c")
  then have log1: "issued c1 = issued c @ [CreateTaskCall (task_request req)]"
    by (auto simp: client_createTask_run split: prod.splits)
  show ?thesis
  proof (cases o1)
    case (Inl e)
    with assms create have "c' = c1"
      by (simp add: client_createTaskWithSubtasks_def await_def)
    with log1 have "issued c' = issued c @ CreateTaskCall (task_request req) #
                      map (AppendSubtask []) (take 0 (cws_subtasks req))" by simp
    then show ?thesis by (intro exI [of _ "[]"] exI [of _ 0]) simp
  next
    case (Inr created)
    obtain o2 c2 where adds: "add_in_order api (cres_taskId created) (cws_subtasks req) c1 = (o2, c2)"
      by (cases "add_in_order api (cres_taskId created) (cws_subtasks req) c1")
    with assms create Inr have "c' = c2"
      by (cases o2) (simp_all add: client_createTaskWithSubtasks_def await_def returns_def)
    with add_in_order_issued [OF adds] log1 show ?thesis by auto
  qed
qed

lemma composite_tool:
  assumes "createTaskWithSubtasks svc
             \<lparr>cws_name = name, cws_columnId = columnId, cws_description = description,
              cws_color = color, cws_position = position, cws_subtasks = subtasks\<rparr> c = (Inr res, c1)"
    and "getTaskDetails svc (cwres_taskId res) None c1 = (Inr task, c2)"
  shows "\<exists>rest. create_task_with_subtasks svc name columnId description color position subtasks c =
           (''Successfully created task with '' @ show_int (cwres_totalSubtasks res) @
            '' subtasks!\<newline>'' @ rest, c2)"
  using assms
  by (simp add: create_task_with_subtasks_def create_task_with_subtasks_try_def try_catch_def
        await_def returns_def)

lemma show_nat_two: "show_nat (Suc (Suc 0)) = ''2''"
  using show_small(1) by (simp add: numeral_2_eq_2)

lemma demo_composite:
  "createTaskWithSubtasks (kanbanService memory_api) release_request (fresh_client demo_memory) =
   (Inr \<lparr>cwres_taskId = ''task-2'', cwres_taskName = ''Release'',
         cwres_addedSubtasks = [\<lparr>as_name = ''a'', as_insertIndex = 0\<rparr>, \<lparr>as_name = ''b'', as_insertIndex = 1\<rparr>],
         cwres_totalSubtasks = 2\<rparr>,
    \<lparr>remote_state = demo_memory\<lparr>mem_tasks := [demo_task, release_task]\<rparr>,
     issued = [CreateTaskCall (task_request release_request),
               AppendSubtask ''task-2'' (named_subtask ''a''),
               AppendSubtask ''task-2'' (named_subtask ''b'')]\<rparr>)"
  by (simp add: kanbanService_sels client_createTaskWithSubtasks_def client_createTask_def
        client_addSubtask_def issue_def await_def returns_def memory_api_def on_task_def
        task_request_def Let_def fresh_client_def demo_memory_def demo_task_def plain_task_def
        show_small show_nat_two subtask_of_request_def release_task_def release_request_def
        named_subtask_def)

lemma demo_read_release:
  "getTaskDetails (kanbanService memory_api) ''task-2'' None
     \<lparr>remote_state = demo_memory\<lparr>mem_tasks := [demo_task, release_task]\<rparr>,
      issued = [CreateTaskCall (task_request release_request),
                AppendSubtask ''task-2'' (named_subtask ''a''),
                AppendSubtask ''task-2'' (named_subtask ''b'')]\<rparr> =
   (Inr release_task,
    \<lparr>remote_state = demo_memory\<lparr>mem_tasks := [demo_task, release_task]\<rparr>,
     issued = [CreateTaskCall (task_request release_request),
               AppendSubtask ''task-2'' (named_subtask ''a''),
               AppendSubtask ''task-2'' (named_subtask ''b''),
               ReadTask ''task-2'']\<rparr>)"
  by (simp add: kanbanService_sels client_getTaskDetails_def issue_def memory_api_sels on_task_def
        demo_memory_def demo_task_def plain_task_def release_task_def)

lemma demo_flaky:
  "createTaskWithSubtasks (kanbanService flaky_api) release_request (fresh_client demo_memory) =
   (Inl not_supported,
    \<lparr>remote_state = demo_memory\<lparr>mem_tasks :=
        [demo_task,
         (plain_task ''task-2'' ''Release'' ''col-1'')
           \<lparr>task_subTasks := Some [subtask_of_request (named_subtask ''a'')]\<rparr>]\<rparr>,
     issued = [CreateTaskCall (task_request release_request),
               AppendSubtask ''task-2'' (named_subtask ''a''),
               AppendSubtask ''task-2'' (named_subtask ''b'')]\<rparr>)"
  by (simp add: kanbanService_sels client_createTaskWithSubtasks_def client_createTask_def
        client_addSubtask_def issue_def await_def returns_def throws_def flaky_api_def memory_api_def
        on_task_def task_request_def Let_def fresh_client_def demo_memory_def demo_task_def
        plain_task_def show_small show_nat_two subtask_of_request_def release_request_def
        named_subtask_def)

text \<open>
  C7. For every input list of n subtasks, a create-task-with-subtasks that succeeds has
  issued exactly one task-create call followed by exactly n subtask-add calls, one per
  subtask in the order supplied; the reported totalSubtasks is n, with one reported
  insertion index per subtask, under the subtask's name; and the tool's narrative
  reports n. Whatever the outcome, the requests issued are the task-create call followed
  by the subtask-add calls of a prefix of the list, in order.
\<close>

theorem composite_creation_issues_create_then_adds:
  "(createTaskWithSubtasks (kanbanService api) req c = (Inr res, c') \<longrightarrow>
      issued c' = issued c @ CreateTaskCall (task_request req) #
                    map (AppendSubtask (cwres_taskId res)) (cws_subtasks req)
    \<and> cwres_totalSubtasks res = int (length (cws_subtasks req))
    \<and> length (cwres_addedSubtasks res) = length (cws_subtasks req)
    \<and> map as_name (cwres_addedSubtasks res) = map asr_name (cws_subtasks req))
   \<and> (createTaskWithSubtasks (kanbanService api) req c = (outcome, c'') \<longrightarrow>
      (\<exists>tid k. k \<le> length (cws_subtasks req) \<and>
         issued c'' = issued c @ CreateTaskCall (task_request req) #
                        map (AppendSubtask tid) (take k (cws_subtasks req))))
   \<and> (createTaskWithSubtasks (kanbanService api)
         \<lparr>cws_name = name, cws_columnId = columnId, cws_description = description,
          cws_color = color, cws_position = position, cws_subtasks = subtasks\<rparr> c = (Inr res, c') \<and>
       getTaskDetails (kanbanService api) (cwres_taskId res) None c' = (Inr task, c2) \<longrightarrow>
      (\<exists>rest. create_task_with_subtasks (kanbanService api) name columnId description color position
                 subtasks c =
         (''Successfully created task with '' @ show_int (int (length subtasks)) @
          '' subtasks!\<newline>'' @ rest, c2)))"
proof -
  have success: "createTaskWithSubtasks (kanbanService api) req c = (Inr res, c') \<longrightarrow>
      issued c' = issued c @ CreateTaskCall (task_request req) #
                    map (AppendSubtask (cwres_taskId res)) (cws_subtasks req)
    \<and> cwres_totalSubtasks res = int (length (cws_subtasks req))
    \<and> length (cwres_addedSubtasks res) = length (cws_subtasks req)
    \<and> map as_name (cwres_addedSubtasks res) = map asr_name (cws_subtasks req)"
    using composite_success [of api req c res c'] by (simp add: kanbanService_sels)
  have always: "createTaskWithSubtasks (kanbanService api) req c = (outcome, c'') \<longrightarrow>
      (\<exists>tid k. k \<le> length (cws_subtasks req) \<and>
         issued c'' = issued c @ CreateTaskCall (task_request req) #
                        map (AppendSubtask tid) (take k (cws_subtasks req)))"
    using composite_issued [of api req c outcome c''] by (simp add: kanbanService_sels)
  have tool: "createTaskWithSubtasks (kanbanService api)
         \<lparr>cws_name = name, cws_columnId = columnId, cws_description = description,
          cws_color = color, cws_position = position, cws_subtasks = subtasks\<rparr> c = (Inr res, c') \<and>
       getTaskDetails (kanbanService api) (cwres_taskId res) None c' = (Inr task, c2) \<longrightarrow>
      (\<exists>rest. create_task_with_subtasks (kanbanService api) name columnId description color position
                 subtasks c =
         (''Successfully created task with '' @ show_int (int (length subtasks)) @
          '' subtasks!\<newline>'' @ rest, c2))"
  proof
    assume h: "createTaskWithSubtasks (kanbanService api)
         \<lparr>cws_name = name, cws_columnId = columnId, cws_description = description,
          cws_color = color, cws_position = position, cws_subtasks = subtasks\<rparr> c = (Inr res, c') \<and>
       getTaskDetails (kanbanService api) (cwres_taskId res) None c' = (Inr task, c2)"
    then have "cwres_totalSubtasks res = int (length subtasks)"
      using composite_success
              [of api "\<lparr>cws_name = name, cws_columnId = columnId, cws_description = description,
                        cws_color = color, cws_position = position, cws_subtasks = subtasks\<rparr>" c res c']
      by (simp add: kanbanService_sels)
    with composite_tool [of "kanbanService api" name columnId description color position subtasks
                            c res c' task c2] h
    show "\<exists>rest. create_task_with_subtasks (kanbanService api) name columnId description color position
                 subtasks c =
         (''Successfully created task with '' @ show_int (int (length subtasks)) @
          '' subtasks!\<newline>'' @ rest, c2)"
      by simp
  qed
  show ?thesis
    by (rule conjI [OF success conjI [OF always tool]])
qed

theorem composite_creation_example:
  "fst (createTaskWithSubtasks (kanbanService memory_api) release_request (fresh_client demo_memory)) =
     Inr \<lparr>cwres_taskId = ''task-2'', cwres_taskName = ''Release'',
          cwres_addedSubtasks = [\<lparr>as_name = ''a'', as_insertIndex = 0\<rparr>, \<lparr>as_name = ''b'', as_insertIndex = 1\<rparr>],
          cwres_totalSubtasks = 2\<rparr>
   \<and> issued (snd (createTaskWithSubtasks (kanbanService memory_api) release_request
                     (fresh_client demo_memory))) =
     [CreateTaskCall (task_request release_request),
      AppendSubtask ''task-2'' (named_subtask ''a''), AppendSubtask ''task-2'' (named_subtask ''b'')]
   \<and> (\<exists>rest. fst (create_task_with_subtasks (kanbanService memory_api) ''Release'' ''col-1'' None None None
                      [named_subtask ''a'', named_subtask ''b''] (fresh_client demo_memory)) =
              ''Successfully created task with 2 subtasks!\<newline>'' @ rest)
   \<and> fst (createTaskWithSubtasks (kanbanService flaky_api) release_request (fresh_client demo_memory)) =
     Inl not_supported
   \<and> (\<exists>tid k. k \<le> length (cws_subtasks release_request) \<and>
        issued (snd (createTaskWithSubtasks (kanbanService flaky_api) release_request
                       (fresh_client demo_memory))) =
        CreateTaskCall (task_request release_request) #
          map (AppendSubtask tid) (take k (cws_subtasks release_request)))"
proof -
  note inst = composite_creation_issues_create_then_adds
      [where api = memory_api and req = release_request and c = "fresh_client demo_memory"
         and res = "\<lparr>cwres_taskId = ''task-2'', cwres_taskName = ''Release'',
                     cwres_addedSubtasks = [\<lparr>as_name = ''a'', as_insertIndex = 0\<rparr>,
                                            \<lparr>as_name = ''b'', as_insertIndex = 1\<rparr>],
                     cwres_totalSubtasks = 2\<rparr>"
         and c' = "\<lparr>remote_state = demo_memory\<lparr>mem_tasks := [demo_task, release_task]\<rparr>,
                    issued = [CreateTaskCall (task_request release_request),
                              AppendSubtask ''task-2'' (named_subtask ''a''),
                              AppendSubtask ''task-2'' (named_subtask ''b'')]\<rparr>"
         and outcome = "Inl not_found" and c'' = "fresh_client demo_memory"
         and name = "''Release''" and columnId = "''col-1''" and description = None and color = None
         and position = None and subtasks = "[named_subtask ''a'', named_subtask ''b'']"
         and task = release_task
         and ?c2.0 = "\<lparr>remote_state = demo_memory\<lparr>mem_tasks := [demo_task, release_task]\<rparr>,
                       issued = [CreateTaskCall (task_request release_request),
                                 AppendSubtask ''task-2'' (named_subtask ''a''),
                                 AppendSubtask ''task-2'' (named_subtask ''b''),
                                 ReadTask ''task-2'']\<rparr>"]
  have req: "\<lparr>cws_name = ''Release'', cws_columnId = ''col-1'', cws_description = None, cws_color = None,
              cws_position = None, cws_subtasks = [named_subtask ''a'', named_subtask ''b'']\<rparr> =
             release_request"
    by (simp add: release_request_def)
  from inst [THEN conjunct2, THEN conjunct2] demo_composite demo_read_release
  have "\<exists>rest. create_task_with_subtasks (kanbanService memory_api) ''Release'' ''col-1'' None None None
                      [named_subtask ''a'', named_subtask ''b''] (fresh_client demo_memory) =
              (''Successfully created task with '' @ show_int (int (length [named_subtask ''a'', named_subtask ''b''])) @
               '' subtasks!\<newline>'' @ rest,
               \<lparr>remote_state = demo_memory\<lparr>mem_tasks := [demo_task, release_task]\<rparr>,
                issued = [CreateTaskCall (task_request release_request),
                          AppendSubtask ''task-2'' (named_subtask ''a''),
                          AppendSubtask ''task-2'' (named_subtask ''b''),
                          ReadTask ''task-2'']\<rparr>)"
    by (simp add: req)
  then have tool: "\<exists>rest. fst (create_task_with_subtasks (kanbanService memory_api) ''Release'' ''col-1'' None None None
                      [named_subtask ''a'', named_subtask ''b''] (fresh_client demo_memory)) =
              ''Successfully created task with 2 subtasks!\<newline>'' @ rest"
    by (auto simp: show_small)
  from inst [THEN conjunct1] demo_composite
  have "issued (snd (createTaskWithSubtasks (kanbanService memory_api) release_request
                     (fresh_client demo_memory))) =
     [CreateTaskCall (task_request release_request),
      AppendSubtask ''task-2'' (named_subtask ''a''), AppendSubtask ''task-2'' (named_subtask ''b'')]"
    by (simp add: fresh_client_def release_request_def)
  moreover from composite_creation_issues_create_then_adds
      [where api = flaky_api and req = release_request and c = "fresh_client demo_memory"
         and outcome = "Inl not_supported"
         and c'' = "snd (createTaskWithSubtasks (kanbanService flaky_api) release_request
                          (fresh_client demo_memory))"
         and res = "\<lparr>cwres_taskId = [], cwres_taskName = [], cwres_addedSubtasks = [],
                     cwres_totalSubtasks = 0\<rparr>"
         and c' = "fresh_client demo_memory" and ?c2.0 = "fresh_client demo_memory"
         and name = "[]" and columnId = "[]" and description = None and color = None
         and position = None and subtasks = "[]" and task = demo_task,
       THEN conjunct2, THEN conjunct1] demo_flaky
  have "\<exists>tid k. k \<le> length (cws_subtasks release_request) \<and>
        issued (snd (createTaskWithSubtasks (kanbanService flaky_api) release_request
                       (fresh_client demo_memory))) =
        CreateTaskCall (task_request release_request) #
          map (AppendSubtask tid) (take k (cws_subtasks release_request))"
    by (simp add: fresh_client_def)
  ultimately show ?thesis using tool demo_composite demo_flaky by simp
qed

subsection \<open>The setup wizard\<close>














end
